theory Spec2Isabelle
  imports Complex_Main "HOL-Library.AList" "HOL-Library.Sublist"
begin

text \<open>
  A shallow embedding of the OpenCode TPS meter plugin: the rate tracker with its ring
  buffer and EWMA smoothing, the sink fallback of the display manager, the heuristic
  token counter, and the event handlers of the plugin with their registry of sessions
  and streams. Closure variables become records that every operation takes and returns;
  \<open>Date.now()\<close> becomes an argument; a JavaScript \<open>Map\<close> becomes an association
  list in insertion order. The definitions come first, the properties after them.
\<close>

section \<open>Constants (constants.ts)\<close>

text \<open>
  Millisecond quantities and token counts are JavaScript numbers that only ever hold
  integers here (\<open>Date.now()\<close>, \<open>Math.ceil\<close> of a length); they are modelled as
  unbounded \<open>int\<close>. Rates are modelled as \<open>real\<close>: the development idealises IEEE
  doubles to the reals.
\<close>

definition MIN_TPS_ELAPSED_MS :: int where
  "MIN_TPS_ELAPSED_MS = 250"

definition DEFAULT_ROLLING_WINDOW_MS :: int where
  "DEFAULT_ROLLING_WINDOW_MS = 1000"

definition MAX_BUFFER_SIZE :: nat where
  "MAX_BUFFER_SIZE = 100"

definition MIN_WINDOW_DURATION_SECONDS :: real where
  "MIN_WINDOW_DURATION_SECONDS = 1 / 10"

definition BURST_TOKEN_THRESHOLD :: int where
  "BURST_TOKEN_THRESHOLD = 50"

definition DEFAULT_EWMA_HALF_LIFE_MS :: real where
  "DEFAULT_EWMA_HALF_LIFE_MS = 500"

definition BURST_EWMA_HALF_LIFE_MS :: real where
  "BURST_EWMA_HALF_LIFE_MS = 3000"

definition LARGE_BURST_THRESHOLD :: int where
  "LARGE_BURST_THRESHOLD = 200"

definition LARGE_BURST_EWMA_HALF_LIFE_MS :: real where
  "LARGE_BURST_EWMA_HALF_LIFE_MS = 5000"

definition MIN_TOAST_INTERVAL_MS :: int where
  "MIN_TOAST_INTERVAL_MS = 150"

definition DEFAULT_TOAST_DURATION_MS :: int where
  "DEFAULT_TOAST_DURATION_MS = 20000"

definition FINAL_STATS_DURATION_MS :: int where
  "FINAL_STATS_DURATION_MS = 2000"

definition MAX_MESSAGE_AGE_MS :: int where
  "MAX_MESSAGE_AGE_MS = 5 * 60 * 1000"

definition CLEANUP_INTERVAL_MS :: int where
  "CLEANUP_INTERVAL_MS = 30000"

definition INVALID_FINISH_REASONS :: "string list" where
  "INVALID_FINISH_REASONS = [''tool-calls'', ''unknown'']"

definition COUNTABLE_PART_TYPES :: "string list" where
  "COUNTABLE_PART_TYPES = [''text'', ''reasoning'']"

section \<open>The tracker (tracker.ts)\<close>

record BufferEntry =
  timestamp :: int
  count :: int

text \<open>
  The closure variables of \<open>createTracker\<close>. The first five are shared by both
  revisions of the file; the smoothing revision adds the three EWMA variables.
\<close>

record tracker_core =
  startTime :: int
  totalTokens :: int
  buffer :: "BufferEntry list"
  sessionId :: "string option"
  windowMs :: int

record tracker = tracker_core +
  smoothedTps :: real
  lastSmoothedAt :: int
  hasSmoothedValue :: bool

text \<open>\<open>Array.prototype.findIndex\<close>; \<open>None\<close> stands for \<open>-1\<close>.\<close>

fun findIndex :: "('a \<Rightarrow> bool) \<Rightarrow> 'a list \<Rightarrow> nat option" where
  "findIndex P [] = None"
| "findIndex P (x # xs) =
     (if P x then Some 0 else map_option Suc (findIndex P xs))"

text \<open>
  \<open>createTracker options\<close>, with the value of \<open>Date.now()\<close> as first argument.
  A missing, non-numeric or non-positive \<open>rollingWindowMs\<close> gives the default window.
\<close>

definition createTracker :: "int \<Rightarrow> string option \<Rightarrow> int option \<Rightarrow> tracker" where
  "createTracker now sid rollingWindowMs =
     \<lparr> startTime = now, totalTokens = 0, buffer = [], sessionId = sid,
       windowMs = (case rollingWindowMs of
                     Some w \<Rightarrow> if w > 0 then w else DEFAULT_ROLLING_WINDOW_MS
                   | None \<Rightarrow> DEFAULT_ROLLING_WINDOW_MS),
       smoothedTps = 0, lastSmoothedAt = 0, hasSmoothedValue = False \<rparr>"

text \<open>\<open>pruneBuffer\<close> of the smoothing revision: \<open>findIndex\<close>, then \<open>splice\<close>.\<close>

definition pruneBuffer :: "int \<Rightarrow> tracker \<Rightarrow> tracker" where
  "pruneBuffer now t =
     (let cutoff = now - windowMs t;
          validStartIndex = findIndex (\<lambda>e. timestamp e \<ge> cutoff) (buffer t);
          t1 = (case validStartIndex of
                  None \<Rightarrow> t\<lparr>buffer := []\<rparr>
                | Some i \<Rightarrow> if i > 0 then t\<lparr>buffer := drop i (buffer t)\<rparr> else t)
      in if length (buffer t1) > MAX_BUFFER_SIZE
         then t1\<lparr>buffer := drop (length (buffer t1) - MAX_BUFFER_SIZE) (buffer t1)\<rparr>
         else t1)"

text \<open>
  The \<open>for\<close> loop of \<open>calculateRawTPS\<close>; the accumulator is
  \<open>(tokensInWindow, oldestTimestamp, newestTimestamp)\<close>.
\<close>

fun windowScan :: "int \<Rightarrow> BufferEntry list \<Rightarrow> int \<times> int \<times> int \<Rightarrow> int \<times> int \<times> int" where
  "windowScan cutoff [] acc = acc"
| "windowScan cutoff (e # es) (tokensInWindow, oldest, newest) =
     (if timestamp e \<ge> cutoff
      then windowScan cutoff es
             (tokensInWindow + count e,
              (if timestamp e < oldest then timestamp e else oldest),
              (if timestamp e > newest then timestamp e else newest))
      else windowScan cutoff es (tokensInWindow, oldest, newest))"

definition calculateRawTPS :: "int \<Rightarrow> 'a tracker_core_scheme \<Rightarrow> real" where
  "calculateRawTPS now t =
     (if buffer t = [] then 0
      else
        (case windowScan (now - windowMs t) (buffer t) (0, now, 0) of
           (tokensInWindow, oldestTimestamp, newestTimestamp) \<Rightarrow>
             if tokensInWindow = 0 then 0
             else
               let windowDurationMs = newestTimestamp - oldestTimestamp;
                   windowDurationSeconds = real_of_int windowDurationMs / 1000;
                   effectiveDuration = max windowDurationSeconds MIN_WINDOW_DURATION_SECONDS
               in real_of_int tokensInWindow / effectiveDuration))"

text \<open>The half-life chosen in the \<open>else\<close> branch of \<open>recordTokens\<close>.\<close>

definition halfLife :: "int \<Rightarrow> real" where
  "halfLife cnt =
     (if cnt > BURST_TOKEN_THRESHOLD then BURST_EWMA_HALF_LIFE_MS
      else DEFAULT_EWMA_HALF_LIFE_MS)"

text \<open>
  \<open>recordTokens(count, timestamp?)\<close>; the first argument is the value \<open>Date.now()\<close>
  would return, used only when the timestamp is omitted. Rates are real numbers: the
  smoothing step (\<open>Math.exp\<close>, the two products and the sum) is exact here, where the
  code rounds each operation to an IEEE double. The total, the buffer and the choice of
  the half-life are integer computations and are the code's own.
\<close>

definition recordTokens :: "int \<Rightarrow> int \<Rightarrow> int option \<Rightarrow> tracker \<Rightarrow> tracker" where
  "recordTokens clock cnt tsOpt t =
     (let ts = (case tsOpt of Some x \<Rightarrow> x | None \<Rightarrow> clock);
          t1 = t\<lparr>totalTokens := totalTokens t + cnt\<rparr>;
          t2 = t1\<lparr>buffer := buffer t1 @ [\<lparr>timestamp = ts, count = cnt\<rparr>]\<rparr>;
          t3 = pruneBuffer ts t2;
          rawTPS = calculateRawTPS ts t3;
          t4 = (if \<not> hasSmoothedValue t3
                then t3\<lparr>smoothedTps := rawTPS, hasSmoothedValue := True\<rparr>
                else
                  let timeDelta = max 1 (ts - lastSmoothedAt t3);
                      alpha = exp (- ln 2 * real_of_int timeDelta / halfLife cnt)
                  in t3\<lparr>smoothedTps := alpha * smoothedTps t3 + (1 - alpha) * rawTPS\<rparr>)
      in t4\<lparr>lastSmoothedAt := ts\<rparr>)"

definition getInstantTPS :: "int \<Rightarrow> tracker \<Rightarrow> real" where
  "getInstantTPS clock t = calculateRawTPS clock t"

definition getSmoothedTPS :: "int \<Rightarrow> tracker \<Rightarrow> real" where
  "getSmoothedTPS clock t =
     (if hasSmoothedValue t then smoothedTps t else calculateRawTPS clock t)"

definition getAverageTPS :: "int \<Rightarrow> 'a tracker_core_scheme \<Rightarrow> real" where
  "getAverageTPS clock t =
     (let elapsedSeconds = real_of_int (clock - startTime t) / 1000
      in if elapsedSeconds = 0 then 0 else real_of_int (totalTokens t) / elapsedSeconds)"

definition getTotalTokens :: "'a tracker_core_scheme \<Rightarrow> int" where
  "getTotalTokens t = totalTokens t"

definition getElapsedMs :: "int \<Rightarrow> 'a tracker_core_scheme \<Rightarrow> int" where
  "getElapsedMs clock t = clock - startTime t"

definition getBufferSize :: "'a tracker_core_scheme \<Rightarrow> nat" where
  "getBufferSize t = length (buffer t)"

definition getMaxBufferSize :: nat where
  "getMaxBufferSize = MAX_BUFFER_SIZE"

definition reset :: "int \<Rightarrow> tracker \<Rightarrow> tracker" where
  "reset clock t =
     t\<lparr>startTime := clock, totalTokens := 0, buffer := [],
       smoothedTps := 0, hasSmoothedValue := False, lastSmoothedAt := 0\<rparr>"

subsection \<open>The revision without smoothing\<close>

text \<open>
  The other revision of the file keeps only the core variables. Its \<open>pruneBuffer\<close>
  advances an index in a \<open>while\<close> loop and cuts with \<open>slice\<close>.
\<close>

function scanExpired :: "int \<Rightarrow> BufferEntry list \<Rightarrow> nat \<Rightarrow> nat" where
  "scanExpired cutoff buf validStartIndex =
     (if validStartIndex < length buf \<and> timestamp (buf ! validStartIndex) < cutoff
      then scanExpired cutoff buf (Suc validStartIndex)
      else validStartIndex)"
  by pat_completeness auto
termination
  by (relation "measure (\<lambda>(cutoff, buf, i). length buf - i)") auto

declare scanExpired.simps [simp del]

definition pruneBuffer_plain :: "int \<Rightarrow> tracker_core \<Rightarrow> tracker_core" where
  "pruneBuffer_plain now t =
     (let cutoff = now - windowMs t;
          validStartIndex = scanExpired cutoff (buffer t) 0;
          t1 = (if validStartIndex > 0 then t\<lparr>buffer := drop validStartIndex (buffer t)\<rparr> else t)
      in if length (buffer t1) > MAX_BUFFER_SIZE
         then t1\<lparr>buffer := drop (length (buffer t1) - MAX_BUFFER_SIZE) (buffer t1)\<rparr>
         else t1)"

definition recordTokens_plain :: "int \<Rightarrow> int \<Rightarrow> int option \<Rightarrow> tracker_core \<Rightarrow> tracker_core" where
  "recordTokens_plain clock cnt tsOpt t =
     (let ts = (case tsOpt of Some x \<Rightarrow> x | None \<Rightarrow> clock);
          t1 = t\<lparr>totalTokens := totalTokens t + cnt\<rparr>;
          t2 = t1\<lparr>buffer := buffer t1 @ [\<lparr>timestamp = ts, count = cnt\<rparr>]\<rparr>
      in pruneBuffer_plain ts t2)"

definition reset_plain :: "int \<Rightarrow> tracker_core \<Rightarrow> tracker_core" where
  "reset_plain clock t = t\<lparr>startTime := clock, totalTokens := 0, buffer := []\<rparr>"

definition createTracker_plain :: "int \<Rightarrow> string option \<Rightarrow> int option \<Rightarrow> tracker_core" where
  "createTracker_plain now sid rollingWindowMs =
     \<lparr> startTime = now, totalTokens = 0, buffer = [], sessionId = sid,
       windowMs = (case rollingWindowMs of
                     Some w \<Rightarrow> if w > 0 then w else DEFAULT_ROLLING_WINDOW_MS
                   | None \<Rightarrow> DEFAULT_ROLLING_WINDOW_MS) \<rparr>"

subsection \<open>Sequences of calls on one tracker\<close>

text \<open>
  One call of the public interface, made when the clock reads the given value.
  The accessors return a value and leave the closure variables alone.
\<close>

datatype tracker_op =
    RecordTokens int "int option"
  | Reset
  | GetInstantTPS
  | GetSmoothedTPS
  | GetAverageTPS
  | GetTotalTokens
  | GetElapsedMs
  | GetSessionId
  | GetBufferSize
  | GetMaxBufferSize
  | GetWindowMs

fun apply_op :: "tracker \<Rightarrow> int \<times> tracker_op \<Rightarrow> tracker" where
  "apply_op t (clock, RecordTokens cnt tsOpt) = recordTokens clock cnt tsOpt t"
| "apply_op t (clock, Reset) = reset clock t"
| "apply_op t (clock, _) = t"

fun apply_op_plain :: "tracker_core \<Rightarrow> int \<times> tracker_op \<Rightarrow> tracker_core" where
  "apply_op_plain t (clock, RecordTokens cnt tsOpt) = recordTokens_plain clock cnt tsOpt t"
| "apply_op_plain t (clock, Reset) = reset_plain clock t"
| "apply_op_plain t (clock, _) = t"

text \<open>A sequence of \<open>recordTokens(count, timestamp)\<close> calls, as pairs.\<close>

definition recordAll :: "tracker \<Rightarrow> (int \<times> int) list \<Rightarrow> tracker" where
  "recordAll t calls = foldl (\<lambda>s (cnt, ts). recordTokens ts cnt (Some ts) s) t calls"

definition recordAll_plain :: "tracker_core \<Rightarrow> (int \<times> int) list \<Rightarrow> tracker_core" where
  "recordAll_plain t calls = foldl (\<lambda>s (cnt, ts). recordTokens_plain ts cnt (Some ts) s) t calls"

section \<open>The display manager (ui.ts)\<close>

datatype variant = Info | Success | Warning | Error

text \<open>
  A call that reached a notification sink, with what the code passes: the message, the
  colour variant where the sink takes one, and the duration.
\<close>

datatype sink_call =
    ShowToast string variant int
  | Publish string variant int
  | ToastInfo string int
  | ToastSuccess string int

text \<open>
  The client object. A sink that does not exist is \<open>None\<close> (\<open>client.tui\<close> or
  \<open>client.toast\<close> missing counts as every sink below it missing). A sink that exists
  is a function of the payload that says whether the call returns (\<open>True\<close>) or
  throws (\<open>False\<close>).
\<close>

record OpenCodeClient =
  tui_showToast :: "(string \<Rightarrow> variant \<Rightarrow> int \<Rightarrow> bool) option"
  tui_publish :: "(string \<Rightarrow> variant \<Rightarrow> int \<Rightarrow> bool) option"
  toast_info :: "(string \<Rightarrow> int \<Rightarrow> bool) option"
  toast_success :: "(string \<Rightarrow> int \<Rightarrow> bool) option"

text \<open>The fields of \<open>uiConfig\<close> that \<open>display\<close> and \<open>getColorVariant\<close> read.\<close>

record uiConfig =
  updateIntervalMs :: int
  enableColorCoding :: bool
  slowTpsThreshold :: real
  fastTpsThreshold :: real

text \<open>The closure variables that \<open>display\<close> reads and writes.\<close>

record ui_state =
  uiConfig :: uiConfig
  lastToastAt :: int
  lastToastMessage :: string

definition createUIManager :: "uiConfig \<Rightarrow> ui_state" where
  "createUIManager config = \<lparr> uiConfig = config, lastToastAt = 0, lastToastMessage = [] \<rparr>"

definition getColorVariant :: "uiConfig \<Rightarrow> real \<Rightarrow> bool \<Rightarrow> variant" where
  "getColorVariant cfg instantTps isFinal =
     (if isFinal then Success
      else if \<not> enableColorCoding cfg then Info
      else if instantTps < slowTpsThreshold cfg then Error
      else if instantTps > fastTpsThreshold cfg then Success
      else Warning)"

text \<open>
  \<open>display(message, isFinal, instantTps)\<close> with the client and the value of
  \<open>Date.now()\<close>. The result is the new state and the sink calls made, in order.
  Each \<open>try\<close> block is a step: the call is made, and \<open>displayed\<close> becomes true when
  it returns; a throw is caught and leaves \<open>displayed\<close> false. (Where a sink returns a
  promise the code attaches an empty rejection handler to it, which changes nothing here.)
\<close>

definition display ::
  "OpenCodeClient \<Rightarrow> int \<Rightarrow> string \<Rightarrow> bool \<Rightarrow> real \<Rightarrow> ui_state \<Rightarrow> ui_state \<times> sink_call list" where
  "display client now message isFinal instantTps s =
     (let minToastIntervalMs = max MIN_TOAST_INTERVAL_MS (updateIntervalMs (uiConfig s) * 3);
          toastDuration = max DEFAULT_TOAST_DURATION_MS (minToastIntervalMs * 20)
      in
        if \<not> isFinal \<and> (message = lastToastMessage s \<or> now - lastToastAt s < minToastIntervalMs)
        then (s, [])
        else
          let variant = getColorVariant (uiConfig s) instantTps isFinal;
              (displayed1, calls1) =
                (case tui_showToast client of
                   Some showToast \<Rightarrow>
                     let duration = (if isFinal then 2000 else toastDuration)
                     in (showToast message variant duration, [ShowToast message variant duration])
                 | None \<Rightarrow> (False, []));
              (displayed2, calls2) =
                (if displayed1 then (displayed1, calls1)
                 else
                   (case tui_publish client of
                      Some publish \<Rightarrow>
                        let duration = (if isFinal then FINAL_STATS_DURATION_MS else toastDuration)
                        in (publish message variant duration,
                            calls1 @ [Publish message variant duration])
                    | None \<Rightarrow> (displayed1, calls1)));
              (displayed3, calls3) =
                (if displayed2 then (displayed2, calls2)
                 else
                   (case (toast_success client, toast_info client) of
                      (Some success, Some info) \<Rightarrow>
                        if isFinal
                        then (success message FINAL_STATS_DURATION_MS,
                              calls2 @ [ToastSuccess message FINAL_STATS_DURATION_MS])
                        else (info message toastDuration,
                              calls2 @ [ToastInfo message toastDuration])
                    | _ \<Rightarrow> (displayed2, calls2)))
          in ((if displayed3 then s\<lparr>lastToastAt := now, lastToastMessage := message\<rparr> else s),
              calls3))"

subsection \<open>The sink chain in the words of the specification\<close>

text \<open>
  The sinks that exist, in the order of the fallback chain, each with the call it would
  receive and whether that call returns.
\<close>

definition sink_chain ::
  "OpenCodeClient \<Rightarrow> uiConfig \<Rightarrow> string \<Rightarrow> bool \<Rightarrow> real \<Rightarrow> (sink_call \<times> bool) list" where
  "sink_chain client cfg message isFinal instantTps =
     (let toastDuration = max DEFAULT_TOAST_DURATION_MS (max MIN_TOAST_INTERVAL_MS (updateIntervalMs cfg * 3) * 20);
          variant = getColorVariant cfg instantTps isFinal;
          d1 = (if isFinal then 2000 else toastDuration);
          d2 = (if isFinal then FINAL_STATS_DURATION_MS else toastDuration)
      in
        (case tui_showToast client of
           Some showToast \<Rightarrow> [(ShowToast message variant d1, showToast message variant d1)]
         | None \<Rightarrow> [])
        @ (case tui_publish client of
             Some publish \<Rightarrow> [(Publish message variant d2, publish message variant d2)]
           | None \<Rightarrow> [])
        @ (case (toast_success client, toast_info client) of
             (Some success, Some info) \<Rightarrow>
               if isFinal
               then [(ToastSuccess message FINAL_STATS_DURATION_MS, success message FINAL_STATS_DURATION_MS)]
               else [(ToastInfo message toastDuration, info message toastDuration)]
           | _ \<Rightarrow> []))"


subsection \<open>The throttle and the public interface\<close>

text \<open>
  The display state that \<open>updateDisplay\<close> stores and \<open>showFinalStats\<close> builds.
  \<open>formatDisplay\<close> turns it into the message; its result depends on JavaScript's
  number formatting (\<open>toFixed\<close>, \<open>toLocaleString\<close>), so the functions below take
  the formatter as an argument and hold for every formatter.
\<close>

record DisplayState =
  ds_instantTps :: real
  ds_avgTps :: real
  ds_totalTokens :: int
  ds_elapsedMs :: int

text \<open>
  All closure variables of \<open>createUIManager\<close>: those of \<open>display\<close>, and those of the
  throttle. A pending flush timer is the time at which it is due.
\<close>

record ui_manager =
  displayVars :: ui_state
  flushTimer :: "int option"
  lastFlushAt :: int
  pendingState :: "DisplayState option"
  lastDisplayedState :: "DisplayState option"

definition newUIManager :: "uiConfig \<Rightarrow> ui_manager" where
  "newUIManager config =
     \<lparr> displayVars = createUIManager config, flushTimer = None, lastFlushAt = 0,
       pendingState = None, lastDisplayedState = None \<rparr>"

text \<open>Whether a sink call returned, read off the client.\<close>

fun returned :: "OpenCodeClient \<Rightarrow> sink_call \<Rightarrow> bool" where
  "returned client (ShowToast m v d) =
     (case tui_showToast client of Some showToast \<Rightarrow> showToast m v d | None \<Rightarrow> False)"
| "returned client (Publish m v d) =
     (case tui_publish client of Some publish \<Rightarrow> publish m v d | None \<Rightarrow> False)"
| "returned client (ToastInfo m d) =
     (case toast_info client of Some info \<Rightarrow> info m d | None \<Rightarrow> False)"
| "returned client (ToastSuccess m d) =
     (case toast_success client of Some success \<Rightarrow> success m d | None \<Rightarrow> False)"

text \<open>
  The account of one call of \<open>display\<close>: when it was made, with which text, whether
  it was a final-stats emission, the minimum interval in force
  (\<open>max(MIN_TOAST_INTERVAL_MS, 3 * updateIntervalMs)\<close>), the sink calls made, and
  whether the emission was shown, that is, whether the last sink called returned.
  \<open>displayLogged\<close> is \<open>display\<close> together with this account.
\<close>

record emission =
  em_at :: int
  em_text :: string
  em_final :: bool
  em_minInterval :: int
  em_calls :: "sink_call list"
  em_shown :: bool

definition displayLogged ::
  "OpenCodeClient \<Rightarrow> int \<Rightarrow> string \<Rightarrow> bool \<Rightarrow> real \<Rightarrow> ui_state \<Rightarrow> ui_state \<times> emission" where
  "displayLogged client now message isFinal instantTps s =
     (case display client now message isFinal instantTps s of
        (s1, calls) \<Rightarrow>
          (s1, \<lparr> em_at = now, em_text = message, em_final = isFinal,
                 em_minInterval = max MIN_TOAST_INTERVAL_MS (updateIntervalMs (uiConfig s) * 3),
                 em_calls = calls,
                 em_shown = (calls \<noteq> [] \<and> returned client (last calls)) \<rparr>))"

text \<open>
  The functions of the manager, each with the formatter, the client as it behaves at the
  time of the call, and the value of \<open>Date.now()\<close>; one clock value serves a whole
  call. Each returns the new variables and the emissions it made, in order.
\<close>

definition flushPendingUpdate ::
  "(DisplayState \<Rightarrow> string) \<Rightarrow> OpenCodeClient \<Rightarrow> int \<Rightarrow> ui_manager
     \<Rightarrow> ui_manager \<times> emission list" where
  "flushPendingUpdate formatDisplay client now m =
     (case pendingState m of
        None \<Rightarrow> (m, [])
      | Some p \<Rightarrow>
          (case displayLogged client now (formatDisplay p) False (ds_instantTps p) (displayVars m) of
             (s, e) \<Rightarrow>
               (m\<lparr>displayVars := s, lastDisplayedState := Some p, pendingState := None\<rparr>, [e])))"

definition scheduleFlush :: "int \<Rightarrow> ui_manager \<Rightarrow> ui_manager" where
  "scheduleFlush now m =
     (if flushTimer m \<noteq> None then m
      else
        let delay = (if lastFlushAt m = 0 then 0
                     else max 0 (updateIntervalMs (uiConfig (displayVars m)) - (now - lastFlushAt m)))
        in m\<lparr>flushTimer := Some (now + delay)\<rparr>)"

text \<open>The callback that \<open>scheduleFlush\<close> hands to \<open>setTimeout\<close>.\<close>

definition flushTimerFired ::
  "(DisplayState \<Rightarrow> string) \<Rightarrow> OpenCodeClient \<Rightarrow> int \<Rightarrow> ui_manager
     \<Rightarrow> ui_manager \<times> emission list" where
  "flushTimerFired formatDisplay client now m =
     flushPendingUpdate formatDisplay client now (m\<lparr>flushTimer := None, lastFlushAt := now\<rparr>)"

definition updateDisplay :: "int \<Rightarrow> real \<Rightarrow> real \<Rightarrow> int \<Rightarrow> int \<Rightarrow> ui_manager \<Rightarrow> ui_manager" where
  "updateDisplay now instantTps avgTps tokens elapsed m =
     scheduleFlush now
       (m\<lparr>pendingState := Some \<lparr> ds_instantTps = instantTps, ds_avgTps = avgTps,
                                  ds_totalTokens = tokens, ds_elapsedMs = elapsed \<rparr>\<rparr>)"

text \<open>
  \<open>showFinalStats\<close> flushes what is pending, blanks \<open>lastToastMessage\<close>, and
  displays the final statistics as a final emission.
\<close>

definition showFinalStats ::
  "(DisplayState \<Rightarrow> string) \<Rightarrow> OpenCodeClient \<Rightarrow> int \<Rightarrow> int \<Rightarrow> real \<Rightarrow> int \<Rightarrow> ui_manager
     \<Rightarrow> ui_manager \<times> emission list" where
  "showFinalStats formatDisplay client now tokens avgTps elapsed m =
     (case flushPendingUpdate formatDisplay client now m of
        (m1, es) \<Rightarrow>
          let m2 = m1\<lparr>displayVars := (displayVars m1)\<lparr>lastToastMessage := []\<rparr>\<rparr>;
              state = \<lparr> ds_instantTps = 0, ds_avgTps = avgTps, ds_totalTokens = tokens,
                        ds_elapsedMs = elapsed \<rparr>
          in (case displayLogged client now (formatDisplay state) True 0 (displayVars m2) of
                (s, e) \<Rightarrow> (m2\<lparr>displayVars := s\<rparr>, es @ [e])))"

definition clear ::
  "(DisplayState \<Rightarrow> string) \<Rightarrow> OpenCodeClient \<Rightarrow> int \<Rightarrow> ui_manager
     \<Rightarrow> ui_manager \<times> emission list" where
  "clear formatDisplay client now m =
     (case flushPendingUpdate formatDisplay client now (m\<lparr>flushTimer := None\<rparr>) of
        (m1, es) \<Rightarrow> (m1\<lparr>pendingState := None, lastDisplayedState := None\<rparr>, es))"

definition setUpdateInterval :: "int \<Rightarrow> ui_manager \<Rightarrow> ui_manager" where
  "setUpdateInterval ms m =
     m\<lparr>displayVars := (displayVars m)\<lparr>uiConfig := (uiConfig (displayVars m))\<lparr>updateIntervalMs := ms\<rparr>\<rparr>,
       lastFlushAt := 0\<rparr>"

text \<open>
  What can happen to a manager: a call of one of its four methods, or the flush timer
  firing (which does nothing unless a timer is pending and due). A run starts from the
  fresh manager and keeps the log of all emissions, the latest first.
\<close>

datatype ui_op =
    CallUpdateDisplay real real int int
  | FlushTimerFires
  | CallShowFinalStats int real int
  | CallClear
  | CallSetUpdateInterval int

fun ui_op_step ::
  "(DisplayState \<Rightarrow> string) \<Rightarrow> OpenCodeClient \<Rightarrow> int \<Rightarrow> ui_op \<Rightarrow> ui_manager
     \<Rightarrow> ui_manager \<times> emission list" where
  "ui_op_step formatDisplay client now (CallUpdateDisplay instantTps avgTps tokens elapsed) m =
     (updateDisplay now instantTps avgTps tokens elapsed m, [])"
| "ui_op_step formatDisplay client now FlushTimerFires m =
     (case flushTimer m of
        None \<Rightarrow> (m, [])
      | Some due \<Rightarrow> if now < due then (m, []) else flushTimerFired formatDisplay client now m)"
| "ui_op_step formatDisplay client now (CallShowFinalStats tokens avgTps elapsed) m =
     showFinalStats formatDisplay client now tokens avgTps elapsed m"
| "ui_op_step formatDisplay client now CallClear m = clear formatDisplay client now m"
| "ui_op_step formatDisplay client now (CallSetUpdateInterval ms) m = (setUpdateInterval ms m, [])"

definition ui_step ::
  "(DisplayState \<Rightarrow> string) \<Rightarrow> ui_manager \<times> emission list \<Rightarrow> int \<times> OpenCodeClient \<times> ui_op
     \<Rightarrow> ui_manager \<times> emission list" where
  "ui_step formatDisplay mh x =
     (case ui_op_step formatDisplay (fst (snd x)) (fst x) (snd (snd x)) (fst mh) of
        (m1, es) \<Rightarrow> (m1, rev es @ snd mh))"

definition run_ui ::
  "(DisplayState \<Rightarrow> string) \<Rightarrow> uiConfig \<Rightarrow> (int \<times> OpenCodeClient \<times> ui_op) list
     \<Rightarrow> ui_manager \<times> emission list" where
  "run_ui formatDisplay config ops = foldl (ui_step formatDisplay) (newUIManager config, []) ops"

text \<open>
  Read off a log (latest emission first): the last emission that was shown, and whether
  a final-stats emission has failed, on every sink or for want of one, since then.
\<close>

fun lastShown :: "emission list \<Rightarrow> emission option" where
  "lastShown [] = None"
| "lastShown (e # h) = (if em_shown e then Some e else lastShown h)"

fun failedFinalSince :: "emission list \<Rightarrow> bool" where
  "failedFinalSince [] = False"
| "failedFinalSince (e # h) =
     (if em_shown e then False else if em_final e then True else failedFinalSince h)"

text \<open>
  What the two bookkeeping variables hold after a log: the time of the last emission
  shown, and its text unless a final-stats emission has failed since.
\<close>

definition remembers :: "ui_state \<Rightarrow> emission list \<Rightarrow> bool" where
  "remembers s h =
     (lastToastAt s = (case lastShown h of None \<Rightarrow> 0 | Some e \<Rightarrow> em_at e) \<and>
      lastToastMessage s =
        (case lastShown h of None \<Rightarrow> []
         | Some e \<Rightarrow> if failedFinalSince h then [] else em_text e))"

text \<open>
  The flood guard in the words of the specification, on a log. An emission is due for
  suppression, given the log before it, when it is not final and either its text is that
  of the last emission shown, with no final-stats emission failed since, or it comes
  less than the minimum interval after the last emission shown. A log is guarded when
  every emission in it that was due for suppression called no sink and was not shown.
\<close>

definition suppressible :: "emission \<Rightarrow> emission list \<Rightarrow> bool" where
  "suppressible e earlier =
     (\<not> em_final e \<and>
      (case lastShown earlier of
         None \<Rightarrow> False
       | Some e0 \<Rightarrow>
           (em_text e = em_text e0 \<and> \<not> failedFinalSince earlier) \<or>
           em_at e - em_at e0 < em_minInterval e))"

fun floodGuarded :: "emission list \<Rightarrow> bool" where
  "floodGuarded [] = True"
| "floodGuarded (e # h) =
     ((suppressible e h \<longrightarrow> em_calls e = [] \<and> \<not> em_shown e) \<and> floodGuarded h)"

subsection \<open>Values for the examples\<close>

text \<open>
  The default configuration; \<open>formatDisplay\<close> of that configuration at the two display
  states the examples use (5 tokens per second instant and average, 100 tokens, and the
  final statistics of the same stream); a client whose only sink returns, and one whose
  only sink throws.
\<close>

definition exampleConfig :: uiConfig where
  "exampleConfig = \<lparr> updateIntervalMs = 50, enableColorCoding = False, slowTpsThreshold = 10,
                     fastTpsThreshold = 50 \<rparr>"

definition exampleFormat :: "DisplayState \<Rightarrow> string" where
  "exampleFormat p =
     (if ds_instantTps p = 0 then ''TPS: 0.0 (avg 5.0) | tokens: 100''
      else ''TPS: 5.0 (avg 5.0) | tokens: 100'')"

definition workingClient :: OpenCodeClient where
  "workingClient = \<lparr> tui_showToast = Some (\<lambda>m v d. True), tui_publish = None,
                     toast_info = None, toast_success = None \<rparr>"

definition failingClient :: OpenCodeClient where
  "failingClient = \<lparr> tui_showToast = Some (\<lambda>m v d. False), tui_publish = None,
                     toast_info = None, toast_success = None \<rparr>"
section \<open>The token counter (tokenCounter.ts)\<close>

text \<open>
  Strings are lists of characters; \<open>length\<close> plays the part of \<open>String.length\<close>.
  White space is the ASCII part of what \<open>String.prototype.trim\<close> and \<open>\s\<close> accept.
  JavaScript also takes \<open>U+00A0\<close>, \<open>U+FEFF\<close>, \<open>U+2028\<close> and a few more
  characters for white space; they are not white space here, so the word count below is
  that of the code on ASCII text.
\<close>

definition isWhitespace :: "char \<Rightarrow> bool" where
  "isWhitespace c =
     (c \<in> set [CHR 0x09, CHR 0x0A, CHR 0x0B, CHR 0x0C, CHR 0x0D, CHR 0x20])"

definition trim :: "string \<Rightarrow> string" where
  "trim s = rev (dropWhile isWhitespace (rev (dropWhile isWhitespace s)))"

text \<open>\<open>Math.ceil(a / b)\<close> for an integer \<open>a\<close> and a positive integer \<open>b\<close>.\<close>

definition ceilDiv :: "int \<Rightarrow> int \<Rightarrow> int" where
  "ceilDiv a b = - ((- a) div b)"

definition countByChars :: "string \<Rightarrow> int \<Rightarrow> int" where
  "countByChars txt divisor =
     (if txt = [] then 0 else ceilDiv (int (length txt)) divisor)"

text \<open>
  \<open>trimmed.split(/\s+/).length\<close> on a trimmed, non-empty string: the number of
  maximal runs of non-blank characters, counted at the end of each run.
\<close>

fun splitLength :: "string \<Rightarrow> nat" where
  "splitLength [] = 0"
| "splitLength [c] = (if isWhitespace c then 0 else 1)"
| "splitLength (c # d # cs) =
     (if \<not> isWhitespace c \<and> isWhitespace d then 1 else 0) + splitLength (d # cs)"

text \<open>The divisor is 0.75, so the quotient is four thirds of the word count.\<close>

definition countByWords :: "string \<Rightarrow> int" where
  "countByWords txt =
     (if txt = [] then 0
      else
        let trimmed = trim txt
        in if trimmed = [] then 0 else ceilDiv (4 * int (splitLength trimmed)) 3)"

datatype TokenizerAlgorithm = Heuristic | Word | Code

text \<open>\<open>createTokenizer(algorithm).count(text)\<close>.\<close>

fun tokenizer_count :: "TokenizerAlgorithm \<Rightarrow> string \<Rightarrow> int" where
  "tokenizer_count Heuristic txt = countByChars txt 4"
| "tokenizer_count Word txt = countByWords txt"
| "tokenizer_count Code txt = countByChars txt 3"

section \<open>The plugin (index.ts)\<close>

subsection \<open>Data\<close>

datatype role = User | Assistant | System

record AgentIdentity =
  agent_id :: "string option"
  agent_type :: "string option"
  agent_name :: "string option"
  agent_description :: "string option"

text \<open>
  The \<open>agent\<close> field is declared as an \<open>AgentIdentity\<close>, but \<open>handleMessageUpdated\<close>
  also treats it as a plain agent name when it is a string.
\<close>

datatype agent_value = AgentString string | AgentObject AgentIdentity

record TrackerMetadata =
  md_agent :: "agent_value option"
  md_agentId :: "string option"
  md_agentType :: "string option"
  md_name :: "string option"

record MessageTrackerState =
  key :: string
  messageId :: string
  partId :: "string option"
  tracker :: tracker
  label :: string
  firstTokenAt :: "int option"
  lastUpdated :: int
  agent :: "agent_value option"
  agentId :: "string option"
  agentType :: "string option"

text \<open>A JavaScript \<open>Map\<close> is an association list in insertion order.\<close>

record SessionTrackingState =
  aggregate :: tracker
  aggregateFirstTokenAt :: "int option"
  messageTrackers :: "(string \<times> MessageTrackerState) list"

text \<open>The fields of the resolved configuration that the handlers read.\<close>

record Config =
  rollingWindowMs :: int
  minVisibleTPS :: real
  tokenizer :: TokenizerAlgorithm

record AgentDisplayState =
  ads_id :: string
  ads_label :: string
  ads_instantTps :: real
  ads_avgTps :: real
  ads_totalTokens :: int
  ads_elapsedMs :: int

text \<open>
  The display manager is a collaborator of the handlers: the plugin state keeps the
  calls made on it, in order.
\<close>

datatype ui_call =
    UpdateDisplay real real int int "AgentDisplayState list"
  | ShowFinalStats int real int
  | Clear

text \<open>
  The closure variables of \<open>TpsMeterPlugin\<close>. A pending display timer is kept with
  the time at which it is due.
\<close>

record plugin_state =
  sessionTrackers :: "(string \<times> SessionTrackingState) list"
  partTextCache :: "(string \<times> (string \<times> string) list) list"
  messageTokenCache :: "(string \<times> (string \<times> int) list) list"
  messageRoleCache :: "(string \<times> (string \<times> role) list) list"
  sessionAgentNameCache :: "(string \<times> string) list"
  primarySessionId :: "string option"
  pendingDisplayTimers :: "(string \<times> int) list"
  lastCleanupTime :: int
  ui_calls :: "ui_call list"

definition initialState :: plugin_state where
  "initialState =
     \<lparr> sessionTrackers = [], partTextCache = [], messageTokenCache = [],
       messageRoleCache = [], sessionAgentNameCache = [], primarySessionId = None,
       pendingDisplayTimers = [], lastCleanupTime = 0, ui_calls = [] \<rparr>"

record Part =
  part_id :: "string option"
  part_sessionID :: "string option"
  part_messageID :: string
  part_type :: string
  part_text :: "string option"
  part_name :: "string option"
  part_agent :: "agent_value option"
  part_agentId :: "string option"
  part_agentType :: "string option"

text \<open>\<open>info.time\<close> is \<open>{created, completed?}\<close> when present.\<close>

record MessageInfo =
  info_id :: string
  info_sessionID :: string
  info_role :: role
  info_time :: "(int \<times> int option) option"
  info_tokens_output :: "int option"
  info_tokens_reasoning :: "int option"
  info_finish :: "string option"
  info_agent :: "agent_value option"
  info_agentId :: "string option"
  info_agentType :: "string option"

datatype MessageEvent =
    MessagePartUpdated "Part option" "string option"
  | MessageUpdated "MessageInfo option"
  | SessionIdle "string option"
  | UnknownEvent

subsection \<open>Truthiness and string helpers\<close>

definition truthyStr :: "string option \<Rightarrow> bool" where
  "truthyStr v = (case v of Some s \<Rightarrow> s \<noteq> [] | None \<Rightarrow> False)"

definition truthyNum :: "int option \<Rightarrow> bool" where
  "truthyNum v = (case v of Some n \<Rightarrow> n \<noteq> 0 | None \<Rightarrow> False)"

definition truthyAgent :: "agent_value option \<Rightarrow> bool" where
  "truthyAgent v =
     (case v of Some (AgentString s) \<Rightarrow> s \<noteq> [] | Some (AgentObject a) \<Rightarrow> True | None \<Rightarrow> False)"

text \<open>\<open>a || b\<close> on optional strings.\<close>

definition orElse :: "string option \<Rightarrow> string option \<Rightarrow> string option" where
  "orElse a b = (if truthyStr a then a else b)"

text \<open>\<open>v?.id?.trim()\<close> and its siblings: a string has no such property.\<close>

definition agentField :: "(AgentIdentity \<Rightarrow> string option) \<Rightarrow> agent_value option \<Rightarrow> string option" where
  "agentField f v = (case v of Some (AgentObject a) \<Rightarrow> map_option trim (f a) | _ \<Rightarrow> None)"

text \<open>How a template literal prints an optional string.\<close>

definition template :: "string option \<Rightarrow> string" where
  "template v = (case v of Some s \<Rightarrow> s | None \<Rightarrow> ''undefined'')"

text \<open>
  The horizontal ellipsis, in UTF-8: three characters here, one UTF-16 unit in the
  JavaScript string. It occurs in the labels of streams only.
\<close>

definition ellipsis :: string where
  "ellipsis = [CHR 0xE2, CHR 0x80, CHR 0xA6]"

definition abbreviateId :: "string \<Rightarrow> string" where
  "abbreviateId s = (if s = [] \<or> length s \<le> 4 then s else take 4 s @ ellipsis)"

definition buildAgentLabel :: "string \<Rightarrow> TrackerMetadata \<Rightarrow> string" where
  "buildAgentLabel mid md =
     (let typeLabel =
            orElse (agentField agent_type (md_agent md))
              (orElse (map_option trim (md_agentType md))
                 (orElse (agentField agent_name (md_agent md))
                    (orElse (map_option trim (md_name md)) (Some ''Subagent''))));
          rawId =
            orElse (map_option trim (md_agentId md))
              (orElse (agentField agent_id (md_agent md)) (Some mid));
          identifier = abbreviateId (template rawId)
      in template typeLabel @ ''('' @ identifier @ '')'')"

definition buildTrackerKey :: "string \<Rightarrow> string \<Rightarrow> string option \<Rightarrow> TrackerMetadata \<Rightarrow> string" where
  "buildTrackerKey sid mid pid md =
     (let aid =
            orElse (map_option trim (md_agentId md))
              (orElse (agentField agent_id (md_agent md)) (map_option trim (md_agentType md)))
      in if truthyStr aid then sid @ '':'' @ mid @ '':'' @ template aid
         else if truthyStr pid then sid @ '':'' @ mid @ '':'' @ template pid
         else sid @ '':'' @ mid)"

subsection \<open>The registry\<close>

text \<open>
  An object handed out by a lookup is the value together with the updated state; a
  caller that mutates it stores it back under its key.
\<close>

definition getOrCreateSessionState ::
  "Config \<Rightarrow> int \<Rightarrow> string \<Rightarrow> plugin_state \<Rightarrow> SessionTrackingState \<times> plugin_state" where
  "getOrCreateSessionState cfg now sid st =
     (case map_of (sessionTrackers st) sid of
        Some state \<Rightarrow> (state, st)
      | None \<Rightarrow>
          let state = \<lparr> aggregate = createTracker now (Some sid) (Some (rollingWindowMs cfg)),
                        aggregateFirstTokenAt = None, messageTrackers = [] \<rparr>
          in (state, st\<lparr>sessionTrackers := AList.update sid state (sessionTrackers st)\<rparr>))"

definition getOrCreateMessageTrackerState ::
  "Config \<Rightarrow> int \<Rightarrow> string \<Rightarrow> string \<Rightarrow> string option \<Rightarrow> TrackerMetadata \<Rightarrow> plugin_state
     \<Rightarrow> MessageTrackerState \<times> plugin_state" where
  "getOrCreateMessageTrackerState cfg now sid mid pid md st =
     (case getOrCreateSessionState cfg now sid st of
        (sessionState, st1) \<Rightarrow>
          let k = buildTrackerKey sid mid pid md;
              nextLabel = buildAgentLabel mid md;
              ts0 = (case map_of (messageTrackers sessionState) k of
                       None \<Rightarrow>
                         \<lparr> key = k, messageId = mid, partId = pid,
                           tracker = createTracker now (Some k) (Some (rollingWindowMs cfg)),
                           label = nextLabel, firstTokenAt = None, lastUpdated = 0,
                           agent = md_agent md, agentId = md_agentId md,
                           agentType = md_agentType md \<rparr>
                     | Some ts \<Rightarrow> if label ts \<noteq> nextLabel then ts\<lparr>label := nextLabel\<rparr> else ts);
              ts1 = (if truthyAgent (md_agent md) then ts0\<lparr>agent := md_agent md\<rparr> else ts0);
              ts2 = (if truthyStr (md_agentId md) then ts1\<lparr>agentId := md_agentId md\<rparr> else ts1);
              ts3 = (if truthyStr (md_agentType md) then ts2\<lparr>agentType := md_agentType md\<rparr> else ts2)
          in (ts3,
              st1\<lparr>sessionTrackers :=
                    AList.update sid
                      (sessionState\<lparr>messageTrackers := AList.update k ts3 (messageTrackers sessionState)\<rparr>)
                      (sessionTrackers st1)\<rparr>))"

definition hasAgentMetadata :: "MessageTrackerState \<Rightarrow> bool" where
  "hasAgentMetadata ts = (truthyAgent (agent ts) \<or> truthyStr (agentId ts) \<or> truthyStr (agentType ts))"

definition activityWindow :: "Config \<Rightarrow> int" where
  "activityWindow cfg = max (rollingWindowMs cfg) (MIN_TPS_ELAPSED_MS * 4)"

text \<open>\<open>sessionId.replace(/^ses_/, "")\<close>.\<close>

definition stripSesPrefix :: "string \<Rightarrow> string" where
  "stripSesPrefix sid = (if prefix ''ses_'' sid then drop 4 sid else sid)"

text \<open>
  The body of the inner loop of \<open>getAllActiveAgentsGlobally\<close>: the entries pushed for
  one tracker (none where the loop says \<open>continue\<close>).
\<close>

definition agentEntries ::
  "Config \<Rightarrow> int \<Rightarrow> plugin_state \<Rightarrow> string \<Rightarrow> string \<times> MessageTrackerState \<Rightarrow> AgentDisplayState list" where
  "agentEntries cfg now st sid kv =
     (case kv of (trackerKey, ts) \<Rightarrow>
        (case firstTokenAt ts of
           None \<Rightarrow> []
         | Some first \<Rightarrow>
             if first = 0 then []
             else if now - lastUpdated ts > activityWindow cfg then []
             else
               let entry = (\<lambda>lbl.
                     \<lparr> ads_id = trackerKey, ads_label = lbl,
                       ads_instantTps = getSmoothedTPS now (tracker ts),
                       ads_avgTps = getAverageTPS now (tracker ts),
                       ads_totalTokens = getTotalTokens (tracker ts),
                       ads_elapsedMs = now - first \<rparr>)
               in if hasAgentMetadata ts then [entry (label ts)]
                  else if Some sid \<noteq> primarySessionId st then
                    let agentName = template (orElse (map_of (sessionAgentNameCache st) sid) (Some ''bg''));
                        shortId = abbreviateId (stripSesPrefix sid)
                    in [entry (agentName @ ''('' @ shortId @ '')'')]
                  else []))"

text \<open>The sort with comparator \<open>b.instantTps - a.instantTps\<close> is stable and descending.\<close>

definition getAllActiveAgentsGlobally :: "Config \<Rightarrow> int \<Rightarrow> plugin_state \<Rightarrow> AgentDisplayState list" where
  "getAllActiveAgentsGlobally cfg now st =
     sort_key (\<lambda>e. - ads_instantTps e)
       (concat (map (\<lambda>(sid, sessionState).
                  concat (map (agentEntries cfg now st sid) (messageTrackers sessionState)))
                (sessionTrackers st)))"

definition isPrimarySessionActive :: "Config \<Rightarrow> int \<Rightarrow> plugin_state \<Rightarrow> bool" where
  "isPrimarySessionActive cfg now st =
     (case primarySessionId st of
        None \<Rightarrow> False
      | Some p \<Rightarrow>
          if p = [] then False
          else
            (case map_of (sessionTrackers st) p of
               None \<Rightarrow> False
             | Some sessionState \<Rightarrow>
                 list_ex (\<lambda>kv. \<not> hasAgentMetadata (snd kv) \<and> truthyNum (firstTokenAt (snd kv)) \<and>
                               now - lastUpdated (snd kv) \<le> activityWindow cfg)
                   (messageTrackers sessionState)))"

definition removeMessageTrackerState :: "int \<Rightarrow> string \<Rightarrow> string \<Rightarrow> plugin_state \<Rightarrow> plugin_state" where
  "removeMessageTrackerState now sid mid st =
     (case map_of (sessionTrackers st) sid of
        None \<Rightarrow> st
      | Some sessionState \<Rightarrow>
          let s1 = sessionState\<lparr>messageTrackers :=
                     filter (\<lambda>kv. messageId (snd kv) \<noteq> mid) (messageTrackers sessionState)\<rparr>;
              s2 = (if messageTrackers s1 = []
                    then s1\<lparr>aggregate := reset now (aggregate s1), aggregateFirstTokenAt := None\<rparr>
                    else s1)
          in st\<lparr>sessionTrackers := AList.update sid s2 (sessionTrackers st)\<rparr>)"

subsection \<open>Timers\<close>

definition scheduleDisplayTimer :: "int \<Rightarrow> string \<Rightarrow> plugin_state \<Rightarrow> plugin_state" where
  "scheduleDisplayTimer now sid st =
     st\<lparr>pendingDisplayTimers :=
          AList.update sid (now + (MIN_TPS_ELAPSED_MS + 10)) (pendingDisplayTimers st)\<rparr>"

definition clearDisplayTimer :: "string \<Rightarrow> plugin_state \<Rightarrow> plugin_state" where
  "clearDisplayTimer sid st =
     st\<lparr>pendingDisplayTimers := AList.delete sid (pendingDisplayTimers st)\<rparr>"

definition ui_call :: "ui_call \<Rightarrow> plugin_state \<Rightarrow> plugin_state" where
  "ui_call c st = st\<lparr>ui_calls := ui_calls st @ [c]\<rparr>"

text \<open>The callback that \<open>scheduleDisplayTimer\<close> hands to \<open>setTimeout\<close>.\<close>

definition displayTimerFired :: "Config \<Rightarrow> int \<Rightarrow> string \<Rightarrow> plugin_state \<Rightarrow> plugin_state" where
  "displayTimerFired cfg now sid st0 =
     (let st = clearDisplayTimer sid st0
      in case map_of (sessionTrackers st) sid of
           None \<Rightarrow> st
         | Some sessionState \<Rightarrow>
             (case aggregateFirstTokenAt sessionState of
                None \<Rightarrow> st
              | Some first \<Rightarrow>
                  if first = 0 then st
                  else if now - first < MIN_TPS_ELAPSED_MS then st
                  else
                    let allAgents = getAllActiveAgentsGlobally cfg now st;
                        hasPrimaryActivity = isPrimarySessionActive cfg now st
                    in if hasPrimaryActivity then
                         let smoothed = getSmoothedTPS now (aggregate sessionState);
                             avgTps = getAverageTPS now (aggregate sessionState);
                             total = getTotalTokens (aggregate sessionState);
                             elapsedMs = getElapsedMs now (aggregate sessionState)
                         in if smoothed \<ge> minVisibleTPS cfg
                            then ui_call (UpdateDisplay smoothed avgTps total elapsedMs allAgents) st
                            else st
                       else if allAgents \<noteq> [] then ui_call (UpdateDisplay 0 0 0 0 allAgents) st
                       else st))"

subsection \<open>The staleness reaper\<close>

text \<open>
  One round of the deletion loop of \<open>cleanupStaleMessages\<close>: the tracker under the
  key goes, and with it the message's entries in the three caches of the session. The
  caches were fetched before the loop and may be missing; \<open>map_entry\<close> leaves a
  missing one alone.
\<close>

definition deleteStaleKey :: "string \<Rightarrow> plugin_state \<Rightarrow> string \<Rightarrow> plugin_state" where
  "deleteStaleKey sid st k =
     (case map_of (sessionTrackers st) sid of
        None \<Rightarrow> st
      | Some sessionState \<Rightarrow>
          (case map_of (messageTrackers sessionState) k of
             None \<Rightarrow> st
           | Some messageTracker \<Rightarrow>
               let mid = messageId messageTracker
               in st\<lparr>sessionTrackers :=
                        AList.update sid
                          (sessionState\<lparr>messageTrackers := AList.delete k (messageTrackers sessionState)\<rparr>)
                          (sessionTrackers st),
                      messageTokenCache :=
                        AList.map_entry sid (AList.delete mid) (messageTokenCache st),
                      messageRoleCache :=
                        AList.map_entry sid (AList.delete mid) (messageRoleCache st),
                      partTextCache :=
                        AList.map_entry sid
                          (filter (\<lambda>kv. \<not> prefix (mid @ '':'') (fst kv)))
                          (partTextCache st)\<rparr>))"

text \<open>The body of the loop over the sessions.\<close>

definition cleanupSession :: "int \<Rightarrow> plugin_state \<Rightarrow> string \<Rightarrow> plugin_state" where
  "cleanupSession now st sid =
     (case map_of (sessionTrackers st) sid of
        None \<Rightarrow> st
      | Some sessionState \<Rightarrow>
          let keysToDelete =
                map fst (filter (\<lambda>kv. lastUpdated (snd kv) > 0 \<and>
                                      now - lastUpdated (snd kv) > MAX_MESSAGE_AGE_MS)
                           (messageTrackers sessionState));
              st1 = foldl (deleteStaleKey sid) st keysToDelete
          in (case map_of (sessionTrackers st1) sid of
                None \<Rightarrow> st1
              | Some s1 \<Rightarrow>
                  if messageTrackers s1 = []
                  then st1\<lparr>sessionTrackers :=
                             AList.update sid
                               (s1\<lparr>aggregate := reset now (aggregate s1),
                                   aggregateFirstTokenAt := None\<rparr>)
                               (sessionTrackers st1)\<rparr>
                  else st1))"

definition cleanupStaleMessages :: "int \<Rightarrow> plugin_state \<Rightarrow> plugin_state" where
  "cleanupStaleMessages now st =
     (if now - lastCleanupTime st < CLEANUP_INTERVAL_MS then st
      else foldl (cleanupSession now) (st\<lparr>lastCleanupTime := now\<rparr>)
             (map fst (sessionTrackers st)))"

text \<open>\<open>cleanup\<close>: the full reset, ending with \<open>ui.clear()\<close>.\<close>

definition cleanup :: "plugin_state \<Rightarrow> plugin_state" where
  "cleanup st =
     ui_call Clear
       (st\<lparr>pendingDisplayTimers := [], sessionTrackers := [], partTextCache := [],
           messageTokenCache := [], messageRoleCache := [], sessionAgentNameCache := [],
           primarySessionId := None\<rparr>)"

subsection \<open>Streaming chunks\<close>

text \<open>
  \<open>extractPartText\<close> on a part of type \<open>text\<close> or \<open>reasoning\<close>, the only types with
  which \<open>handleMessagePartUpdated\<close> calls it.
\<close>

definition extractPartText :: "Part \<Rightarrow> string" where
  "extractPartText part = (case part_text part of Some t \<Rightarrow> t | None \<Rightarrow> [])"

definition partSessionId :: "Part \<Rightarrow> string" where
  "partSessionId part =
     (case part_sessionID part of Some s \<Rightarrow> if s = [] then ''default'' else s | None \<Rightarrow> ''default'')"

definition partCacheKey :: "Part \<Rightarrow> string" where
  "partCacheKey part = part_messageID part @ '':'' @ template (part_id part) @ '':'' @ part_type part"

text \<open>
  The block of \<open>handleMessagePartUpdated\<close> that settles the delta: an explicit,
  non-empty delta is taken as it is; otherwise, when the part has text, the delta is
  computed against the cached text and the cache is overwritten.
\<close>

definition resolveDelta :: "Part \<Rightarrow> string option \<Rightarrow> plugin_state \<Rightarrow> string option \<times> plugin_state" where
  "resolveDelta part delta st =
     (let sid = partSessionId part;
          partText = extractPartText part
      in if \<not> truthyStr delta \<and> length partText > 0 then
           let sessionCache = (case map_of (partTextCache st) sid of Some c \<Rightarrow> c | None \<Rightarrow> []);
               cacheKey = partCacheKey part;
               previousText = (case map_of sessionCache cacheKey of
                                 Some p \<Rightarrow> p | None \<Rightarrow> []);
               delta1 = (if prefix previousText partText
                         then drop (length previousText) partText
                         else partText)
           in (Some delta1,
               st\<lparr>partTextCache :=
                    AList.update sid (AList.update cacheKey partText sessionCache) (partTextCache st)\<rparr>)
         else (delta, st))"

text \<open>The text cached for a part, if any.\<close>

definition cachedText :: "plugin_state \<Rightarrow> string \<Rightarrow> string \<Rightarrow> string option" where
  "cachedText st sid cacheKey =
     (case map_of (partTextCache st) sid of
        None \<Rightarrow> None
      | Some sessionCache \<Rightarrow> map_of sessionCache cacheKey)"

definition cachedRole :: "plugin_state \<Rightarrow> string \<Rightarrow> string \<Rightarrow> role option" where
  "cachedRole st sid mid =
     (case map_of (messageRoleCache st) sid of
        None \<Rightarrow> None
      | Some roleCache \<Rightarrow> map_of roleCache mid)"

definition partMetadata :: "Part \<Rightarrow> TrackerMetadata" where
  "partMetadata part =
     \<lparr> md_agent = part_agent part, md_agentId = part_agentId part,
       md_agentType = part_agentType part, md_name = part_name part \<rparr>"

text \<open>
  The rest of \<open>handleMessagePartUpdated\<close>, for an accepted delta, in the four blocks
  of the source. The handler holds two objects, the session state and the tracker state.
  The reaper runs after both have been looked up: the session object stays in the
  registry and is read again after the sweep, whereas the tracker object may have been
  removed from it, in which case the handler goes on writing to an object that the
  registry no longer holds (\<open>attached\<close> is false). All clock reads of the handler are
  one instant.
\<close>

text \<open>
  First-token bookkeeping: the session's first token arms the display timer; the
  tracker's first token makes the session primary when the tracker carries no agent
  metadata and no primary is set; \<open>lastUpdated\<close> is refreshed.
\<close>

definition noteFirstToken ::
  "int \<Rightarrow> string \<Rightarrow> SessionTrackingState \<Rightarrow> MessageTrackerState \<Rightarrow> plugin_state
     \<Rightarrow> SessionTrackingState \<times> MessageTrackerState \<times> plugin_state" where
  "noteFirstToken now sid sessionState messageTracker st =
     (let firstOfSession = \<not> truthyNum (aggregateFirstTokenAt sessionState);
          s1 = (if firstOfSession then sessionState\<lparr>aggregateFirstTokenAt := Some now\<rparr>
                else sessionState);
          st1 = (if firstOfSession then scheduleDisplayTimer now sid st else st);
          firstOfTracker = \<not> truthyNum (firstTokenAt messageTracker);
          m1 = (if firstOfTracker then messageTracker\<lparr>firstTokenAt := Some now\<rparr>
                else messageTracker);
          st2 = (if firstOfTracker \<and> \<not> hasAgentMetadata m1 \<and> primarySessionId st1 = None
                 then st1\<lparr>primarySessionId := Some sid\<rparr>
                 else st1)
      in (s1, m1\<lparr>lastUpdated := now\<rparr>, st2))"

text \<open>
  Counting: the tokens of the delta go to the session aggregate and to the tracker, and
  are added to the message's entry in the token cache. The two objects are stored back,
  the tracker only where the registry still holds it.
\<close>

definition countDelta ::
  "Config \<Rightarrow> int \<Rightarrow> string \<Rightarrow> string \<Rightarrow> string \<Rightarrow> bool \<Rightarrow> SessionTrackingState \<Rightarrow> MessageTrackerState
     \<Rightarrow> plugin_state \<Rightarrow> SessionTrackingState \<times> plugin_state" where
  "countDelta cfg now sid mid delta attached sessionState messageTracker st =
     (let tokenCount = tokenizer_count (tokenizer cfg) delta;
          s1 = sessionState\<lparr>aggregate := recordTokens now tokenCount (Some now) (aggregate sessionState)\<rparr>;
          m1 = messageTracker\<lparr>tracker := recordTokens now tokenCount (Some now) (tracker messageTracker)\<rparr>;
          s2 = (if attached
                then s1\<lparr>messageTrackers := AList.update (key m1) m1 (messageTrackers s1)\<rparr>
                else s1);
          messageCache = (case map_of (messageTokenCache st) sid of Some c \<Rightarrow> c | None \<Rightarrow> []);
          previousTokens = (case map_of messageCache mid of Some n \<Rightarrow> n | None \<Rightarrow> 0)
      in (s2,
          st\<lparr>sessionTrackers := AList.update sid s2 (sessionTrackers st),
             messageTokenCache :=
               AList.update sid (AList.update mid (previousTokens + tokenCount) messageCache)
                 (messageTokenCache st)\<rparr>))"

text \<open>The display block at the end of the handler.\<close>

definition showUpdate :: "Config \<Rightarrow> int \<Rightarrow> string \<Rightarrow> SessionTrackingState \<Rightarrow> plugin_state \<Rightarrow> plugin_state" where
  "showUpdate cfg now sid sessionState st =
     (let smoothed = getSmoothedTPS now (aggregate sessionState);
          avgTps = getAverageTPS now (aggregate sessionState);
          total = getTotalTokens (aggregate sessionState);
          elapsedMs = getElapsedMs now (aggregate sessionState);
          elapsedSinceFirstToken =
            (case aggregateFirstTokenAt sessionState of
               None \<Rightarrow> 0 | Some first \<Rightarrow> max 0 (now - first))
      in if elapsedSinceFirstToken \<ge> MIN_TPS_ELAPSED_MS then
           let st1 = clearDisplayTimer sid st;
               allAgents = getAllActiveAgentsGlobally cfg now st1;
               hasPrimaryActivity =
                 (isPrimarySessionActive cfg now st1 \<and> smoothed \<ge> minVisibleTPS cfg)
           in if hasPrimaryActivity
              then ui_call (UpdateDisplay smoothed avgTps total elapsedMs allAgents) st1
              else if allAgents \<noteq> []
              then ui_call (UpdateDisplay 0 0 0 0 allAgents) st1
              else st1
         else st)"

text \<open>The tracker object that the handler obtains for a part.\<close>

definition partStream :: "Config \<Rightarrow> int \<Rightarrow> Part \<Rightarrow> plugin_state \<Rightarrow> MessageTrackerState" where
  "partStream cfg now part st =
     fst (getOrCreateMessageTrackerState cfg now (partSessionId part) (part_messageID part)
            (part_id part) (partMetadata part)
            (snd (getOrCreateSessionState cfg now (partSessionId part) st)))"

definition recordDelta :: "Config \<Rightarrow> int \<Rightarrow> Part \<Rightarrow> string \<Rightarrow> plugin_state \<Rightarrow> plugin_state" where
  "recordDelta cfg now part delta st =
     (let sid = partSessionId part
      in case getOrCreateMessageTrackerState cfg now sid (part_messageID part) (part_id part)
                (partMetadata part) (snd (getOrCreateSessionState cfg now sid st)) of
           (messageTracker, st1) \<Rightarrow>
             let st2 = cleanupStaleMessages now st1
             in (case map_of (sessionTrackers st2) sid of
                   None \<Rightarrow> st2
                 | Some sessionState \<Rightarrow>
                     let attached = (map_of (messageTrackers sessionState) (key messageTracker) \<noteq> None)
                     in (case noteFirstToken now sid sessionState messageTracker st2 of
                           (s1, m1, st3) \<Rightarrow>
                             (case countDelta cfg now sid (part_messageID part) delta attached s1 m1 st3 of
                                (s2, st4) \<Rightarrow> showUpdate cfg now sid s2 st4))))"

definition handleMessagePartUpdated ::
  "Config \<Rightarrow> int \<Rightarrow> Part option \<Rightarrow> string option \<Rightarrow> plugin_state \<Rightarrow> plugin_state" where
  "handleMessagePartUpdated cfg now partOpt delta0 st =
     (case partOpt of
        None \<Rightarrow> st
      | Some part \<Rightarrow>
          if part_type part \<notin> set COUNTABLE_PART_TYPES then st
          else
            (case resolveDelta part delta0 st of
               (delta, st1) \<Rightarrow>
                 (case delta of
                    None \<Rightarrow> st1
                  | Some d \<Rightarrow>
                      if d = [] then st1
                      else if cachedRole st1 (partSessionId part) (part_messageID part) \<noteq> Some Assistant
                      then st1
                      else recordDelta cfg now part d st1)))"

subsection \<open>Message status\<close>

definition infoMetadata :: "MessageInfo \<Rightarrow> TrackerMetadata" where
  "infoMetadata info =
     \<lparr> md_agent = info_agent info, md_agentId = info_agentId info,
       md_agentType = info_agentType info, md_name = None \<rparr>"

text \<open>\<open>info.time?.completed\<close> when it is truthy.\<close>

definition completedAt :: "MessageInfo \<Rightarrow> int option" where
  "completedAt info =
     (case info_time info of
        Some (created, Some completed) \<Rightarrow> if completed = 0 then None else Some completed
      | _ \<Rightarrow> None)"

text \<open>
  The completion block of \<open>handleMessageUpdated\<close>: the final statistics of a message
  that reports a truthy completion time.
\<close>

definition showFinalStatsOnCompletion ::
  "MessageInfo \<Rightarrow> MessageTrackerState \<Rightarrow> int \<Rightarrow> int \<Rightarrow> plugin_state \<Rightarrow> plugin_state" where
  "showFinalStatsOnCompletion info messageTracker reportedTokens cachedTokens st =
     (case completedAt info of
        None \<Rightarrow> st
      | Some completed \<Rightarrow>
          let createdAt = (case info_time info of
                             Some (created, c) \<Rightarrow> created | None \<Rightarrow> completed);
              first = (case firstTokenAt messageTracker of
                         Some f \<Rightarrow> f | None \<Rightarrow> createdAt);
              elapsedMs = max 0 (completed - first);
              total = (if reportedTokens > 0 then reportedTokens else cachedTokens);
              avgTps = (if elapsedMs > 0
                        then real_of_int total / (real_of_int elapsedMs / 1000)
                        else 0);
              hasValidFinish =
                (case info_finish info of
                   None \<Rightarrow> False
                 | Some f \<Rightarrow> f \<notin> set INVALID_FINISH_REASONS);
              shouldShowFinalStats =
                (hasValidFinish \<and> total > 0 \<and> elapsedMs \<ge> MIN_TPS_ELAPSED_MS)
          in if shouldShowFinalStats
             then ui_call (ShowFinalStats total avgTps elapsedMs) st
             else st)"

text \<open>
  Deleting the cached texts of a message: the keys that start with the message id and a
  colon. A session without a text cache is left alone.
\<close>

definition forgetPartTexts :: "string \<Rightarrow> string \<Rightarrow> plugin_state \<Rightarrow> plugin_state" where
  "forgetPartTexts sid mid st =
     st\<lparr>partTextCache :=
          AList.map_entry sid (filter (\<lambda>kv. \<not> prefix (mid @ '':'') (fst kv))) (partTextCache st)\<rparr>"

text \<open>The teardown of a completed message.\<close>

definition forgetMessage :: "int \<Rightarrow> string \<Rightarrow> string \<Rightarrow> plugin_state \<Rightarrow> plugin_state" where
  "forgetMessage now sid mid st =
     removeMessageTrackerState now sid mid
       (st\<lparr>messageTokenCache := AList.map_entry sid (AList.delete mid) (messageTokenCache st),
           messageRoleCache := AList.map_entry sid (AList.delete mid) (messageRoleCache st)\<rparr>)"

text \<open>
  The branch of \<open>handleMessageUpdated\<close> for an assistant message, after the role and
  agent-name caches have been written.
\<close>

definition assistantUpdated :: "Config \<Rightarrow> int \<Rightarrow> MessageInfo \<Rightarrow> plugin_state \<Rightarrow> plugin_state" where
  "assistantUpdated cfg now info st =
     (let sid = info_sessionID info;
          mid = info_id info;
          tokenCache = (case map_of (messageTokenCache st) sid of Some c \<Rightarrow> c | None \<Rightarrow> []);
          outputTokens = (case info_tokens_output info of Some n \<Rightarrow> n | None \<Rightarrow> 0);
          reasoningTokens = (case info_tokens_reasoning info of Some n \<Rightarrow> n | None \<Rightarrow> 0);
          reportedTokens = outputTokens + reasoningTokens
      in case getOrCreateMessageTrackerState cfg now sid mid None (infoMetadata info) st of
           (messageTracker, st1) \<Rightarrow>
             let previous = (case map_of tokenCache mid of Some n \<Rightarrow> n | None \<Rightarrow> 0);
                 nextTokens = max previous reportedTokens;
                 st2 = st1\<lparr>messageTokenCache :=
                            AList.update sid (AList.update mid nextTokens tokenCache)
                              (messageTokenCache st1)\<rparr>;
                 st3 = showFinalStatsOnCompletion info messageTracker reportedTokens nextTokens st2;
                 st4 = forgetPartTexts sid mid st3
             in if completedAt info \<noteq> None then forgetMessage now sid mid st4 else st4)"

definition handleMessageUpdated :: "Config \<Rightarrow> int \<Rightarrow> MessageInfo option \<Rightarrow> plugin_state \<Rightarrow> plugin_state" where
  "handleMessageUpdated cfg now infoOpt st =
     (case infoOpt of
        None \<Rightarrow> st
      | Some info \<Rightarrow>
          let sid = info_sessionID info;
              roleCache = (case map_of (messageRoleCache st) sid of Some c \<Rightarrow> c | None \<Rightarrow> []);
              st1 = st\<lparr>messageRoleCache :=
                         AList.update sid (AList.update (info_id info) (info_role info) roleCache)
                           (messageRoleCache st)\<rparr>;
              st2 = (case info_agent info of
                       Some (AgentString a) \<Rightarrow>
                         if a \<noteq> []
                         then st1\<lparr>sessionAgentNameCache := AList.update sid a (sessionAgentNameCache st1)\<rparr>
                         else st1
                     | _ \<Rightarrow> st1)
          in if info_role info = Assistant then assistantUpdated cfg now info st2 else st2)"

subsection \<open>Session idle, and the dispatcher\<close>

definition handleSessionIdle :: "string option \<Rightarrow> plugin_state \<Rightarrow> plugin_state" where
  "handleSessionIdle sidOpt st =
     (let sid = (case sidOpt of Some s \<Rightarrow> if s = [] then ''default'' else s | None \<Rightarrow> ''default'');
          st1 = clearDisplayTimer sid st;
          st2 = st1\<lparr>sessionTrackers := AList.delete sid (sessionTrackers st1),
                    partTextCache := AList.delete sid (partTextCache st1),
                    messageTokenCache := AList.delete sid (messageTokenCache st1),
                    messageRoleCache := AList.delete sid (messageRoleCache st1),
                    sessionAgentNameCache := AList.delete sid (sessionAgentNameCache st1)\<rparr>
      in if sessionTrackers st2 = [] then cleanup st2 else st2)"

text \<open>The \<open>event\<close> handler the plugin returns; the clock value is that of the handling.\<close>

fun handleEvent :: "Config \<Rightarrow> int \<Rightarrow> MessageEvent \<Rightarrow> plugin_state \<Rightarrow> plugin_state" where
  "handleEvent cfg now (MessagePartUpdated part delta) st = handleMessagePartUpdated cfg now part delta st"
| "handleEvent cfg now (MessageUpdated info) st = handleMessageUpdated cfg now info st"
| "handleEvent cfg now (SessionIdle sid) st = handleSessionIdle sid st"
| "handleEvent cfg now UnknownEvent st = st"

text \<open>
  What the event loop can run on a plugin instance: the handling of an event, or the
  callback of a pending display timer, each at some clock value.
\<close>

datatype step = Event MessageEvent | TimerFires string

fun plugin_step :: "Config \<Rightarrow> plugin_state \<Rightarrow> int \<times> step \<Rightarrow> plugin_state" where
  "plugin_step cfg st (now, Event ev) = handleEvent cfg now ev st"
| "plugin_step cfg st (now, TimerFires sid) =
     (case map_of (pendingDisplayTimers st) sid of
        None \<Rightarrow> st
      | Some due \<Rightarrow> if now < due then st else displayTimerFired cfg now sid st)"

fun isSessionIdle :: "step \<Rightarrow> bool" where
  "isSessionIdle (Event (SessionIdle sid)) = True"
| "isSessionIdle s = False"

definition run :: "Config \<Rightarrow> plugin_state \<Rightarrow> (int \<times> step) list \<Rightarrow> plugin_state" where
  "run cfg st steps = foldl (plugin_step cfg) st steps"

text \<open>
  What \<open>getTotalTokens()\<close> of a session's aggregate tracker returns; zero for a
  session that the registry does not hold.
\<close>

definition aggregateTotal :: "plugin_state \<Rightarrow> string \<Rightarrow> int" where
  "aggregateTotal st sid =
     (case map_of (sessionTrackers st) sid of
        Some sessionState \<Rightarrow> getTotalTokens (aggregate sessionState)
      | None \<Rightarrow> 0)"

text \<open>
  Three notions that the statements about the primary session use. A part event is
  counted when it passes the guards of \<open>handleMessagePartUpdated\<close>: a countable part
  type, a delta that is not empty, and the cached role \<open>assistant\<close>. The session that
  \<open>handleSessionIdle\<close> removes is \<open>event.properties?.sessionID || "default"\<close>. And
  \<open>withoutAgentStreams\<close> is the registry with every stream that carries agent
  metadata taken out of every session.
\<close>

definition partCounted :: "Part \<Rightarrow> string option \<Rightarrow> plugin_state \<Rightarrow> bool" where
  "partCounted part delta st =
     (part_type part \<in> set COUNTABLE_PART_TYPES \<and>
      (case fst (resolveDelta part delta st) of None \<Rightarrow> False | Some d \<Rightarrow> d \<noteq> []) \<and>
      cachedRole (snd (resolveDelta part delta st)) (partSessionId part) (part_messageID part)
        = Some Assistant)"

definition idleSessionId :: "string option \<Rightarrow> string" where
  "idleSessionId sidOpt =
     (case sidOpt of Some s \<Rightarrow> if s = [] then ''default'' else s | None \<Rightarrow> ''default'')"

definition withoutAgentStreams :: "plugin_state \<Rightarrow> plugin_state" where
  "withoutAgentStreams st =
     st\<lparr>sessionTrackers :=
          map (\<lambda>(sid, ss). (sid, ss\<lparr>messageTrackers :=
                 filter (\<lambda>kv. \<not> hasAgentMetadata (snd kv)) (messageTrackers ss)\<rparr>))
            (sessionTrackers st)\<rparr>"

subsection \<open>Events as the test suite builds them\<close>

text \<open>
  \<open>createMessageUpdatedEvent\<close> and \<open>createPartUpdatedEvent\<close> of the multi-agent tests,
  with the clock value as an argument. The part helper sends the same string as text and
  as delta.
\<close>

datatype status = Streaming | Complete | Failed

definition noAgent :: TrackerMetadata where
  "noAgent = \<lparr> md_agent = None, md_agentId = None, md_agentType = None, md_name = None \<rparr>"

definition createMessageUpdatedEvent ::
  "int \<Rightarrow> string \<Rightarrow> string \<Rightarrow> status \<Rightarrow> TrackerMetadata \<Rightarrow> MessageEvent" where
  "createMessageUpdatedEvent now sid mid st agentMetadata =
     MessageUpdated (Some
       \<lparr> info_id = mid, info_sessionID = sid, info_role = Assistant,
         info_time = Some (now, if st = Complete then Some (now + MIN_TPS_ELAPSED_MS) else None),
         info_tokens_output = Some 0, info_tokens_reasoning = None,
         info_finish = (if st = Complete then Some ''stop'' else None),
         info_agent = md_agent agentMetadata, info_agentId = md_agentId agentMetadata,
         info_agentType = md_agentType agentMetadata \<rparr>)"

definition createPartUpdatedEvent ::
  "string \<Rightarrow> string \<Rightarrow> string \<Rightarrow> string \<Rightarrow> TrackerMetadata \<Rightarrow> MessageEvent" where
  "createPartUpdatedEvent sid mid delta partType agentMetadata =
     MessagePartUpdated (Some
       \<lparr> part_id = Some (mid @ ''-part''), part_sessionID = Some sid, part_messageID = mid,
         part_type = partType, part_text = Some delta, part_name = None,
         part_agent = md_agent agentMetadata, part_agentId = md_agentId agentMetadata,
         part_agentType = md_agentType agentMetadata \<rparr>) (Some delta)"

text \<open>The configuration the tests set: a window of one second, the default heuristic.\<close>

definition testConfig :: Config where
  "testConfig = \<lparr> rollingWindowMs = 1000, minVisibleTPS = 0, tokenizer = Heuristic \<rparr>"

section \<open>Properties of the tracker\<close>

lemma buffer_pruneBuffer_le: "length (buffer (pruneBuffer now t)) \<le> MAX_BUFFER_SIZE"
  by (simp add: pruneBuffer_def Let_def)

lemma totalTokens_pruneBuffer: "totalTokens (pruneBuffer now t) = totalTokens t"
  by (simp add: pruneBuffer_def Let_def split: option.splits)




lemma windowMs_pruneBuffer: "windowMs (pruneBuffer now t) = windowMs t"
  by (simp add: pruneBuffer_def Let_def split: option.splits)

lemma buffer_pruneBuffer_plain_le: "length (buffer (pruneBuffer_plain now t)) \<le> MAX_BUFFER_SIZE"
  by (simp add: pruneBuffer_plain_def Let_def)

lemma totalTokens_pruneBuffer_plain: "totalTokens (pruneBuffer_plain now t) = totalTokens t"
  by (simp add: pruneBuffer_plain_def Let_def)

lemma totalTokens_recordTokens:
  "totalTokens (recordTokens clock cnt tsOpt t) = totalTokens t + cnt"
  by (simp add: recordTokens_def Let_def totalTokens_pruneBuffer)

lemma totalTokens_recordTokens_plain:
  "totalTokens (recordTokens_plain clock cnt tsOpt t) = totalTokens t + cnt"
  by (simp add: recordTokens_plain_def Let_def totalTokens_pruneBuffer_plain)

lemma buffer_recordTokens:
  "buffer (recordTokens clock cnt tsOpt t) =
     buffer (pruneBuffer (case tsOpt of Some x \<Rightarrow> x | None \<Rightarrow> clock)
       (t\<lparr>totalTokens := totalTokens t + cnt,
          buffer := buffer t @ [\<lparr>timestamp = (case tsOpt of Some x \<Rightarrow> x | None \<Rightarrow> clock), count = cnt\<rparr>]\<rparr>))"
  by (simp add: recordTokens_def Let_def)

lemma totalTokens_recordAll:
  "totalTokens (recordAll t calls) = totalTokens t + sum_list (map fst calls)"
  unfolding recordAll_def
  by (induction calls arbitrary: t) (auto simp: totalTokens_recordTokens)

lemma totalTokens_recordAll_plain:
  "totalTokens (recordAll_plain t calls) = totalTokens t + sum_list (map fst calls)"
  unfolding recordAll_plain_def
  by (induction calls arbitrary: t) (auto simp: totalTokens_recordTokens_plain)

lemma findIndex_append_last:
  "P e \<Longrightarrow> \<exists>i. findIndex P (xs @ [e]) = Some i \<and> i \<le> length xs"
  by (induction xs) auto

lemma last_pruneBuffer_pushed:
  assumes "0 \<le> windowMs t"
  shows "buffer (pruneBuffer ts (t\<lparr>buffer := buffer t @ [\<lparr>timestamp = ts, count = cnt\<rparr>]\<rparr>)) \<noteq> [] \<and>
         last (buffer (pruneBuffer ts (t\<lparr>buffer := buffer t @ [\<lparr>timestamp = ts, count = cnt\<rparr>]\<rparr>)))
           = \<lparr>timestamp = ts, count = cnt\<rparr>"
proof -
  let ?e = "\<lparr>timestamp = ts, count = cnt\<rparr>"
  have "ts - windowMs t \<le> timestamp ?e" using assms by simp
  then obtain i where i: "findIndex (\<lambda>e. ts - windowMs t \<le> timestamp e) (buffer t @ [?e]) = Some i"
    and le: "i \<le> length (buffer t)"
    using findIndex_append_last [of "\<lambda>e. ts - windowMs t \<le> timestamp e" ?e "buffer t"] by blast
  show ?thesis using i le
    by (auto simp: pruneBuffer_def Let_def MAX_BUFFER_SIZE_def)
qed

lemma buffer_recordTokens_le: "length (buffer (recordTokens clock cnt tsOpt t)) \<le> MAX_BUFFER_SIZE"
  by (simp add: buffer_recordTokens buffer_pruneBuffer_le)

lemma buffer_recordTokens_plain_le:
  "length (buffer (recordTokens_plain clock cnt tsOpt t)) \<le> MAX_BUFFER_SIZE"
  by (simp add: recordTokens_plain_def Let_def buffer_pruneBuffer_plain_le)

lemma buffer_apply_op_le:
  "length (buffer t) \<le> MAX_BUFFER_SIZE \<Longrightarrow> length (buffer (apply_op t c)) \<le> MAX_BUFFER_SIZE"
  by (cases "(t, c)" rule: apply_op.cases) (simp_all add: buffer_recordTokens_le reset_def)

lemma buffer_apply_op_plain_le:
  "length (buffer t) \<le> MAX_BUFFER_SIZE \<Longrightarrow> length (buffer (apply_op_plain t c)) \<le> MAX_BUFFER_SIZE"
  by (cases "(t, c)" rule: apply_op_plain.cases) (simp_all add: buffer_recordTokens_plain_le reset_plain_def)

lemma buffer_foldl_apply_op_le:
  "length (buffer t) \<le> MAX_BUFFER_SIZE \<Longrightarrow> length (buffer (foldl apply_op t ops)) \<le> MAX_BUFFER_SIZE"
  by (induction ops arbitrary: t) (simp_all add: buffer_apply_op_le)

lemma buffer_foldl_apply_op_plain_le:
  "length (buffer t) \<le> MAX_BUFFER_SIZE \<Longrightarrow>
   length (buffer (foldl apply_op_plain t ops)) \<le> MAX_BUFFER_SIZE"
  by (induction ops arbitrary: t) (simp_all add: buffer_apply_op_plain_le)

subsection \<open>Lifetime total\<close>

text \<open>
  Claim C1. For every sequence of \<open>recordTokens(count, timestamp)\<close> calls on a freshly
  created tracker, \<open>getTotalTokens()\<close> afterwards is the exact sum of the recorded
  counts, whatever pruning and trimming did to the buffer. The statement holds for
  every order of the timestamps, so in particular for non-decreasing ones, and for both
  revisions of the tracker.
\<close>

theorem C1_total_tokens_is_sum:
  "getTotalTokens (recordAll (createTracker now sid w) calls) = sum_list (map fst calls) \<and>
   getTotalTokens (recordAll_plain (createTracker_plain now sid w) calls) = sum_list (map fst calls)"
  by (simp add: getTotalTokens_def totalTokens_recordAll totalTokens_recordAll_plain
      createTracker_def createTracker_plain_def)

subsection \<open>Buffer bound\<close>

text \<open>
  Claim C2. After any sequence of calls of the public interface (\<open>recordTokens\<close> with
  arbitrary counts and timestamps, \<open>reset\<close>, the accessors) on a freshly created
  tracker, \<open>getBufferSize()\<close> is at most 100, which is what \<open>getMaxBufferSize()\<close>
  returns. Both revisions of the tracker are covered.
\<close>

theorem C2_buffer_size_bounded:
  "getBufferSize (foldl apply_op (createTracker now sid w) ops) \<le> 100 \<and>
   getBufferSize (foldl apply_op_plain (createTracker_plain now sid w) ops) \<le> 100 \<and>
   getMaxBufferSize = 100"
proof -
  have a: "length (buffer (createTracker now sid w)) \<le> MAX_BUFFER_SIZE"
    by (simp add: createTracker_def)
  have b: "length (buffer (createTracker_plain now sid w)) \<le> MAX_BUFFER_SIZE"
    by (simp add: createTracker_plain_def)
  show ?thesis
    using buffer_foldl_apply_op_le [OF a, of ops] buffer_foldl_apply_op_plain_le [OF b, of ops]
    by (simp add: getBufferSize_def getMaxBufferSize_def MAX_BUFFER_SIZE_def)
qed

subsection \<open>Smoothing\<close>

lemma recordTokens_omitted_timestamp:
  "recordTokens clock cnt None t = recordTokens clock cnt (Some clock) t"
  by (simp add: recordTokens_def)











lemmas tracker_eval =
  recordTokens_def createTracker_def pruneBuffer_def Let_def calculateRawTPS_def
  DEFAULT_ROLLING_WINDOW_MS_def MAX_BUFFER_SIZE_def MIN_WINDOW_DURATION_SECONDS_def halfLife_def
  BURST_TOKEN_THRESHOLD_def BURST_EWMA_HALF_LIFE_MS_def DEFAULT_EWMA_HALF_LIFE_MS_def
  LARGE_BURST_THRESHOLD_def LARGE_BURST_EWMA_HALF_LIFE_MS_def getTotalTokens_def



text \<open>
  Claim C3. \<open>recordTokens\<close> knows two tiers only. A count of 300 exceeds
  \<open>LARGE_BURST_THRESHOLD\<close>, yet the half-life chosen is \<open>BURST_EWMA_HALF_LIFE_MS\<close>, and
  the stored rate is the average for that half-life, not the one for
  \<open>LARGE_BURST_EWMA_HALF_LIFE_MS\<close>.
\<close>

theorem C3_large_burst_half_life:
  "LARGE_BURST_THRESHOLD < 300 \<and>
   halfLife 300 = BURST_EWMA_HALF_LIFE_MS \<and>
   halfLife 300 \<noteq> LARGE_BURST_EWMA_HALF_LIFE_MS \<and>
   smoothedTps (recordTokens 100 300 (Some 100) (recordTokens 0 10 (Some 0) (createTracker 0 None None)))
     = exp (- ln 2 * 100 / BURST_EWMA_HALF_LIFE_MS) * 100
       + (1 - exp (- ln 2 * 100 / BURST_EWMA_HALF_LIFE_MS)) * 3100 \<and>
   smoothedTps (recordTokens 100 300 (Some 100) (recordTokens 0 10 (Some 0) (createTracker 0 None None)))
     \<noteq> exp (- ln 2 * 100 / LARGE_BURST_EWMA_HALF_LIFE_MS) * 100
       + (1 - exp (- ln 2 * 100 / LARGE_BURST_EWMA_HALF_LIFE_MS)) * 3100"
  by (simp add: tracker_eval)

subsection \<open>Negative counts\<close>

text \<open>
  The total does decrease: recording \<open>-5\<close> on a fresh tracker leaves a total below
  the initial one.
\<close>

theorem C9_counterexample:
  "getTotalTokens (recordTokens 0 (- 5) (Some 0) (createTracker 0 None None))
     < getTotalTokens (createTracker 0 None None)"
  by (simp add: tracker_eval)

text \<open>
  Claim C9, as amended. \<open>recordTokens\<close> has no error branch, and it takes a negative
  count as it is, neither clamped nor ignored: the total changes by exactly the count,
  so it decreases, and the newest buffer entry carries the count as given. (The window
  of a tracker built by \<open>createTracker\<close> is positive.) The revision without
  smoothing adds the count to the total in the same way.
\<close>

theorem C9_negative_count_taken_literally:
  assumes "cnt < 0" and "0 \<le> windowMs t"
  shows "getTotalTokens (recordTokens clock cnt (Some ts) t) = getTotalTokens t + cnt \<and>
         getTotalTokens (recordTokens clock cnt (Some ts) t) < getTotalTokens t \<and>
         buffer (recordTokens clock cnt (Some ts) t) \<noteq> [] \<and>
         last (buffer (recordTokens clock cnt (Some ts) t)) = \<lparr>timestamp = ts, count = cnt\<rparr> \<and>
         getTotalTokens (recordTokens_plain clock cnt (Some ts) p) = getTotalTokens p + cnt"
proof -
  let ?t1 = "t\<lparr>totalTokens := totalTokens t + cnt\<rparr>"
  have w: "0 \<le> windowMs ?t1" using assms(2) by simp
  have b: "buffer (recordTokens clock cnt (Some ts) t) =
      buffer (pruneBuffer ts (?t1\<lparr>buffer := buffer ?t1 @ [\<lparr>timestamp = ts, count = cnt\<rparr>]\<rparr>))"
    by (simp add: buffer_recordTokens)
  show ?thesis
    unfolding b using last_pruneBuffer_pushed [OF w, of ts cnt] assms(1)
    by (simp add: getTotalTokens_def totalTokens_recordTokens totalTokens_recordTokens_plain)
qed

theorem C9_negative_count_taken_literally_witness:
  "(- 5 :: int) < 0 \<and> 0 \<le> windowMs (createTracker 0 None None) \<and>
   getTotalTokens (recordTokens 0 (- 5) (Some 7) (createTracker 0 None None)) = - 5 \<and>
   last (buffer (recordTokens 0 (- 5) (Some 7) (createTracker 0 None None)))
     = \<lparr>timestamp = 7, count = - 5\<rparr>"
  using C9_negative_count_taken_literally
    [where cnt = "- 5" and t = "createTracker 0 None None" and clock = 0 and ts = 7]
  by (simp add: createTracker_def DEFAULT_ROLLING_WINDOW_MS_def getTotalTokens_def)

section \<open>Properties of the display manager\<close>

lemmas ui_consts =
  MIN_TOAST_INTERVAL_MS_def DEFAULT_TOAST_DURATION_MS_def FINAL_STATS_DURATION_MS_def

subsection \<open>Flood guard\<close>

text \<open>
  The outcome of a call of \<open>display\<close>: the bookkeeping is set to the time and the text
  of the call exactly when a sink was called and the last one called returned.
\<close>

lemma display_outcome:
  assumes "display client now message isFinal instantTps s = (s1, calls)"
  shows "s1 = (if calls \<noteq> [] \<and> returned client (last calls)
               then s\<lparr>lastToastAt := now, lastToastMessage := message\<rparr> else s)"
proof (cases "\<not> isFinal \<and> (message = lastToastMessage s \<or>
      now - lastToastAt s < max MIN_TOAST_INTERVAL_MS (updateIntervalMs (uiConfig s) * 3))")
  case True
  then show ?thesis using assms by (auto simp: display_def Let_def)
next
  case False
  show ?thesis
    using assms unfolding display_def Let_def
    apply (simp only: False if_False)
    apply (cases "tui_showToast client"; cases "tui_publish client";
        cases "toast_success client"; cases "toast_info client")
                   apply (auto split: if_splits)
    done
qed

text \<open>
  Every function of the manager keeps the bookkeeping in step with the log: after any
  run, \<open>lastToastAt\<close> is the time of the last emission shown (0 when none was), and
  \<open>lastToastMessage\<close> is its text, or empty when none was shown or when a final-stats
  emission has failed since. The second case comes from \<open>showFinalStats\<close>, which
  blanks the variable before it tries the sinks.
\<close>

lemma remembers_displayLogged:
  assumes "remembers s h" and "displayLogged client now message False instantTps s = (s1, e)"
  shows "remembers s1 (e # h)"
proof -
  obtain s2 calls where d: "display client now message False instantTps s = (s2, calls)"
    by (cases "display client now message False instantTps s")
  have e: "e = \<lparr> em_at = now, em_text = message, em_final = False,
                 em_minInterval = max MIN_TOAST_INTERVAL_MS (updateIntervalMs (uiConfig s) * 3),
                 em_calls = calls,
                 em_shown = (calls \<noteq> [] \<and> returned client (last calls)) \<rparr>" and s1: "s1 = s2"
    using assms(2) d by (auto simp: displayLogged_def)
  show ?thesis
    using assms(1) display_outcome [OF d]
    by (auto simp: remembers_def e s1 split: option.splits if_splits)
qed

lemma remembers_final:
  assumes "remembers s h"
    and "displayLogged client now message True instantTps (s\<lparr>lastToastMessage := []\<rparr>) = (s1, e)"
  shows "remembers s1 (e # h)"
proof -
  obtain s2 calls where d: "display client now message True instantTps (s\<lparr>lastToastMessage := []\<rparr>) = (s2, calls)"
    by (cases "display client now message True instantTps (s\<lparr>lastToastMessage := []\<rparr>)")
  have e: "e = \<lparr> em_at = now, em_text = message, em_final = True,
                 em_minInterval = max MIN_TOAST_INTERVAL_MS
                   (updateIntervalMs (uiConfig (s\<lparr>lastToastMessage := []\<rparr>)) * 3),
                 em_calls = calls,
                 em_shown = (calls \<noteq> [] \<and> returned client (last calls)) \<rparr>" and s1: "s1 = s2"
    using assms(2) d by (auto simp: displayLogged_def)
  show ?thesis
    using assms(1) display_outcome [OF d]
    by (auto simp: remembers_def e s1 split: option.splits if_splits)
qed

lemma remembers_flushPendingUpdate:
  assumes "remembers (displayVars m) h" and "flushPendingUpdate fmt client now m = (m1, es)"
  shows "remembers (displayVars m1) (rev es @ h)"
proof (cases "pendingState m")
  case None
  then show ?thesis using assms by (simp add: flushPendingUpdate_def)
next
  case (Some p)
  obtain s e where d: "displayLogged client now (fmt p) False (ds_instantTps p) (displayVars m) = (s, e)"
    by (cases "displayLogged client now (fmt p) False (ds_instantTps p) (displayVars m)")
  have "m1 = m\<lparr>displayVars := s, lastDisplayedState := Some p, pendingState := None\<rparr>" "es = [e]"
    using assms(2) Some d by (simp_all add: flushPendingUpdate_def)
  then show ?thesis using remembers_displayLogged [OF assms(1) d] by simp
qed

lemma remembers_showFinalStats:
  assumes "remembers (displayVars m) h"
    and "showFinalStats fmt client now tokens avgTps elapsed m = (m1, es)"
  shows "remembers (displayVars m1) (rev es @ h)"
proof -
  obtain m2 es2 where f: "flushPendingUpdate fmt client now m = (m2, es2)"
    by (cases "flushPendingUpdate fmt client now m")
  let ?state = "\<lparr> ds_instantTps = 0, ds_avgTps = avgTps, ds_totalTokens = tokens,
                        ds_elapsedMs = elapsed \<rparr>"
  obtain s e where d: "displayLogged client now (fmt ?state) True 0
      ((displayVars m2)\<lparr>lastToastMessage := []\<rparr>) = (s, e)"
    by (cases "displayLogged client now (fmt ?state) True 0
      ((displayVars m2)\<lparr>lastToastMessage := []\<rparr>)")
  have r2: "remembers (displayVars m2) (rev es2 @ h)"
    using remembers_flushPendingUpdate [OF assms(1) f] .
  have "displayVars m1 = s" "es = es2 @ [e]"
    using assms(2) f d by (auto simp: showFinalStats_def Let_def)
  then show ?thesis using remembers_final [OF r2 d] by simp
qed

lemma remembers_ui_op_step:
  assumes "remembers (displayVars m) h" and "ui_op_step fmt client now op m = (m1, es)"
  shows "remembers (displayVars m1) (rev es @ h)"
proof (cases op)
  case (CallUpdateDisplay a b c d)
  then show ?thesis using assms
    by (auto simp: updateDisplay_def scheduleFlush_def Let_def)
next
  case FlushTimerFires
  show ?thesis
  proof (cases "flushTimer m")
    case None
    then show ?thesis using assms FlushTimerFires by simp
  next
    case (Some due)
    show ?thesis
    proof (cases "now < due")
      case True
      then show ?thesis using assms FlushTimerFires Some by simp
    next
      case False
      then have "flushPendingUpdate fmt client now (m\<lparr>flushTimer := None, lastFlushAt := now\<rparr>) = (m1, es)"
        using assms(2) FlushTimerFires Some by (simp add: flushTimerFired_def)
      then show ?thesis
        using remembers_flushPendingUpdate [of "m\<lparr>flushTimer := None, lastFlushAt := now\<rparr>" h fmt client now m1 es]
          assms(1) by simp
    qed
  qed
next
  case (CallShowFinalStats a b c)
  then show ?thesis using assms remembers_showFinalStats by simp
next
  case CallClear
  obtain m2 es2 where f: "flushPendingUpdate fmt client now (m\<lparr>flushTimer := None\<rparr>) = (m2, es2)"
    by (cases "flushPendingUpdate fmt client now (m\<lparr>flushTimer := None\<rparr>)")
  have "displayVars m1 = displayVars m2" "es = es2"
    using assms(2) CallClear f by (auto simp: clear_def)
  then show ?thesis
    using remembers_flushPendingUpdate [of "m\<lparr>flushTimer := None\<rparr>" h fmt client now m2 es2]
      assms(1) f by simp
next
  case (CallSetUpdateInterval ms)
  then show ?thesis using assms by (auto simp: setUpdateInterval_def remembers_def)
qed

lemma remembers_foldl:
  assumes "remembers (displayVars (fst mh)) (snd mh)"
  shows "remembers (displayVars (fst (foldl (ui_step fmt) mh ops)))
           (snd (foldl (ui_step fmt) mh ops))"
  using assms
proof (induction ops arbitrary: mh)
  case Nil
  then show ?case by simp
next
  case (Cons x xs)
  obtain m1 es where s: "ui_op_step fmt (fst (snd x)) (fst x) (snd (snd x)) (fst mh) = (m1, es)"
    by (cases "ui_op_step fmt (fst (snd x)) (fst x) (snd (snd x)) (fst mh)")
  have "remembers (displayVars m1) (rev es @ snd mh)"
    using remembers_ui_op_step [OF Cons.prems s] .
  then have "remembers (displayVars (fst (ui_step fmt mh x))) (snd (ui_step fmt mh x))"
    by (simp add: ui_step_def s)
  then show ?case using Cons.IH by simp
qed

lemma remembers_run_ui:
  "remembers (displayVars (fst (run_ui fmt config ops))) (snd (run_ui fmt config ops))"
  unfolding run_ui_def
  by (rule remembers_foldl) (simp add: remembers_def newUIManager_def createUIManager_def)

lemma display_suppressed:
  assumes "message = lastToastMessage s \<or>
           now - lastToastAt s < max 150 (3 * updateIntervalMs (uiConfig s))"
  shows "display client now message False instantTps s = (s, [])"
  using assms by (auto simp: display_def Let_def MIN_TOAST_INTERVAL_MS_def mult.commute)

lemma display_final_reaches_sink:
  "(snd (display client now message True instantTps s) = []) =
      (tui_showToast client = None \<and> tui_publish client = None \<and>
       (toast_success client = None \<or> toast_info client = None))"
  by (cases "tui_showToast client"; cases "tui_publish client";
      cases "toast_success client"; cases "toast_info client")
     (simp_all add: display_def Let_def split: prod.splits)

text \<open>
  Every function of the manager keeps the log guarded: an emission that is due for
  suppression, given the log before it, calls no sink.
\<close>

lemma displayLogged_guarded:
  assumes "remembers s h" and "displayLogged client now message False instantTps s = (s1, e)"
    and "suppressible e h"
  shows "em_calls e = [] \<and> \<not> em_shown e"
proof -
  obtain s2 calls where d: "display client now message False instantTps s = (s2, calls)"
    by (cases "display client now message False instantTps s")
  have e: "e = \<lparr> em_at = now, em_text = message, em_final = False,
                 em_minInterval = max MIN_TOAST_INTERVAL_MS (updateIntervalMs (uiConfig s) * 3),
                 em_calls = calls,
                 em_shown = (calls \<noteq> [] \<and> returned client (last calls)) \<rparr>"
    using assms(2) d by (auto simp: displayLogged_def)
  have "message = lastToastMessage s \<or>
        now - lastToastAt s < max 150 (3 * updateIntervalMs (uiConfig s))"
    using assms(1,3)
    by (auto simp: remembers_def suppressible_def e MIN_TOAST_INTERVAL_MS_def mult.commute
        split: option.splits)
  then have "display client now message False instantTps s = (s, [])"
    by (rule display_suppressed)
  then have "calls = []" using d by simp
  then show ?thesis by (simp add: e)
qed

lemma floodGuarded_flushPendingUpdate:
  assumes "remembers (displayVars m) h" and "floodGuarded h"
    and "flushPendingUpdate fmt client now m = (m1, es)"
  shows "floodGuarded (rev es @ h)"
proof (cases "pendingState m")
  case None
  then show ?thesis using assms by (simp add: flushPendingUpdate_def)
next
  case (Some p)
  obtain s e where d: "displayLogged client now (fmt p) False (ds_instantTps p) (displayVars m) = (s, e)"
    by (cases "displayLogged client now (fmt p) False (ds_instantTps p) (displayVars m)")
  have es: "es = [e]"
    using assms(3) Some d by (simp add: flushPendingUpdate_def)
  show ?thesis
    using displayLogged_guarded [OF assms(1) d] assms(2) by (simp add: es)
qed

lemma em_final_displayLogged:
  assumes "displayLogged client now message isFinal instantTps s = (s1, e)"
  shows "em_final e = isFinal"
  using assms by (auto simp: displayLogged_def split: prod.splits)

lemma floodGuarded_showFinalStats:
  assumes "remembers (displayVars m) h" and "floodGuarded h"
    and "showFinalStats fmt client now tokens avgTps elapsed m = (m1, es)"
  shows "floodGuarded (rev es @ h)"
proof -
  obtain m2 es2 where f: "flushPendingUpdate fmt client now m = (m2, es2)"
    by (cases "flushPendingUpdate fmt client now m")
  let ?state = "\<lparr> ds_instantTps = 0, ds_avgTps = avgTps, ds_totalTokens = tokens,
                        ds_elapsedMs = elapsed \<rparr>"
  obtain s e where d: "displayLogged client now (fmt ?state) True 0
      ((displayVars m2)\<lparr>lastToastMessage := []\<rparr>) = (s, e)"
    by (cases "displayLogged client now (fmt ?state) True 0
      ((displayVars m2)\<lparr>lastToastMessage := []\<rparr>)")
  have g2: "floodGuarded (rev es2 @ h)"
    using floodGuarded_flushPendingUpdate [OF assms(1,2) f] .
  have es: "es = es2 @ [e]"
    using assms(3) f d by (auto simp: showFinalStats_def Let_def)
  have "em_final e" using em_final_displayLogged [OF d] by simp
  then have "\<not> suppressible e (rev es2 @ h)" by (simp add: suppressible_def)
  then show ?thesis using g2 by (simp add: es)
qed

lemma floodGuarded_ui_op_step:
  assumes "remembers (displayVars m) h" and "floodGuarded h"
    and "ui_op_step fmt client now op m = (m1, es)"
  shows "floodGuarded (rev es @ h)"
proof (cases op)
  case (CallUpdateDisplay a b c d)
  then show ?thesis using assms by auto
next
  case FlushTimerFires
  show ?thesis
  proof (cases "flushTimer m")
    case None
    then show ?thesis using assms FlushTimerFires by simp
  next
    case (Some due)
    show ?thesis
    proof (cases "now < due")
      case True
      then show ?thesis using assms FlushTimerFires Some by simp
    next
      case False
      then have "flushPendingUpdate fmt client now (m\<lparr>flushTimer := None, lastFlushAt := now\<rparr>) = (m1, es)"
        using assms(3) FlushTimerFires Some by (simp add: flushTimerFired_def)
      then show ?thesis
        using floodGuarded_flushPendingUpdate
          [of "m\<lparr>flushTimer := None, lastFlushAt := now\<rparr>" h fmt client now m1 es]
          assms(1,2) by simp
    qed
  qed
next
  case (CallShowFinalStats a b c)
  then show ?thesis using assms floodGuarded_showFinalStats by simp
next
  case CallClear
  obtain m2 es2 where f: "flushPendingUpdate fmt client now (m\<lparr>flushTimer := None\<rparr>) = (m2, es2)"
    by (cases "flushPendingUpdate fmt client now (m\<lparr>flushTimer := None\<rparr>)")
  have "es = es2"
    using assms(3) CallClear f by (auto simp: clear_def)
  then show ?thesis
    using floodGuarded_flushPendingUpdate [of "m\<lparr>flushTimer := None\<rparr>" h fmt client now m2 es2]
      assms(1,2) f by simp
next
  case (CallSetUpdateInterval ms)
  then show ?thesis using assms by auto
qed

lemma floodGuarded_foldl:
  assumes "remembers (displayVars (fst mh)) (snd mh)" and "floodGuarded (snd mh)"
  shows "floodGuarded (snd (foldl (ui_step fmt) mh ops))"
  using assms
proof (induction ops arbitrary: mh)
  case Nil
  then show ?case by simp
next
  case (Cons x xs)
  obtain m1 es where s: "ui_op_step fmt (fst (snd x)) (fst x) (snd (snd x)) (fst mh) = (m1, es)"
    by (cases "ui_op_step fmt (fst (snd x)) (fst x) (snd (snd x)) (fst mh)")
  have r: "remembers (displayVars m1) (rev es @ snd mh)"
    using remembers_ui_op_step [OF Cons.prems(1) s] .
  have g: "floodGuarded (rev es @ snd mh)"
    using floodGuarded_ui_op_step [OF Cons.prems(1,2) s] .
  have "ui_step fmt mh x = (m1, rev es @ snd mh)" by (simp add: ui_step_def s)
  then show ?case using Cons.IH [of "ui_step fmt mh x"] r g by simp
qed

lemma floodGuarded_run_ui: "floodGuarded (snd (run_ui fmt config ops))"
  unfolding run_ui_def
  by (rule floodGuarded_foldl) (simp_all add: remembers_def newUIManager_def createUIManager_def)

lemma floodGuarded_split:
  assumes "floodGuarded (later @ e # earlier)" and "suppressible e earlier"
  shows "em_calls e = [] \<and> \<not> em_shown e"
  using assms by (induction later) simp_all


text \<open>
  Claim C7, as amended. Take any run of the manager from its creation, and the log of
  its emissions. Every non-final emission in the log called no sink and was not shown
  when its text equals the text of the last emission shown before it and no final-stats
  emission has failed in between, or when it comes less than
  \<open>max(150, 3 * updateIntervalMs)\<close> milliseconds after the last emission shown before
  it. Likewise for a non-final call of \<open>display\<close> made after the run: under the same
  conditions it calls no sink and leaves every variable as it was. A final call is exempt
  from both checks: in any state whatsoever it calls a sink as soon as the client has one.
\<close>

theorem C7_flood_guard:
  "(run_ui formatDisplay config ops = (m, later @ e # earlier) \<and> \<not> em_final e \<and>
      lastShown earlier = Some e0 \<and>
      ((em_text e = em_text e0 \<and> \<not> failedFinalSince earlier) \<or>
       em_at e - em_at e0 < em_minInterval e)
    \<longrightarrow> em_calls e = [] \<and> \<not> em_shown e)
   \<and>
   (run_ui formatDisplay config ops = (m, h) \<and> lastShown h = Some e0 \<and>
      ((message = em_text e0 \<and> \<not> failedFinalSince h) \<or>
       now - em_at e0 < max 150 (3 * updateIntervalMs (uiConfig (displayVars m))))
    \<longrightarrow> display client now message False instantTps (displayVars m) = (displayVars m, []))
   \<and>
   ((snd (display client now message True instantTps s) = []) =
      (tui_showToast client = None \<and> tui_publish client = None \<and>
       (toast_success client = None \<or> toast_info client = None)))"
proof -
  have c1: "run_ui formatDisplay config ops = (m, later @ e # earlier) \<and> \<not> em_final e \<and>
      lastShown earlier = Some e0 \<and>
      ((em_text e = em_text e0 \<and> \<not> failedFinalSince earlier) \<or>
       em_at e - em_at e0 < em_minInterval e)
    \<longrightarrow> em_calls e = [] \<and> \<not> em_shown e"
  proof
    assume a: "run_ui formatDisplay config ops = (m, later @ e # earlier) \<and> \<not> em_final e \<and>
      lastShown earlier = Some e0 \<and>
      ((em_text e = em_text e0 \<and> \<not> failedFinalSince earlier) \<or>
       em_at e - em_at e0 < em_minInterval e)"
    have "floodGuarded (later @ e # earlier)"
      using floodGuarded_run_ui [of formatDisplay config ops] a by simp
    moreover have "suppressible e earlier"
      using a by (auto simp: suppressible_def)
    ultimately show "em_calls e = [] \<and> \<not> em_shown e"
      by (rule floodGuarded_split)
  qed
  have c2: "run_ui formatDisplay config ops = (m, h) \<and> lastShown h = Some e0 \<and>
      ((message = em_text e0 \<and> \<not> failedFinalSince h) \<or>
       now - em_at e0 < max 150 (3 * updateIntervalMs (uiConfig (displayVars m))))
    \<longrightarrow> display client now message False instantTps (displayVars m) = (displayVars m, [])"
  proof
    assume a: "run_ui formatDisplay config ops = (m, h) \<and> lastShown h = Some e0 \<and>
      ((message = em_text e0 \<and> \<not> failedFinalSince h) \<or>
       now - em_at e0 < max 150 (3 * updateIntervalMs (uiConfig (displayVars m))))"
    have "remembers (displayVars m) h"
      using remembers_run_ui [of formatDisplay config ops] a by simp
    then have "lastToastAt (displayVars m) = em_at e0"
      and "\<not> failedFinalSince h \<Longrightarrow> lastToastMessage (displayVars m) = em_text e0"
      using a by (simp_all add: remembers_def)
    then show "display client now message False instantTps (displayVars m) = (displayVars m, [])"
      using a display_suppressed [of message "displayVars m" now client instantTps] by auto
  qed
  have c3: "(snd (display client now message True instantTps s) = []) =
      (tui_showToast client = None \<and> tui_publish client = None \<and>
       (toast_success client = None \<or> toast_info client = None))"
    by (rule display_final_reaches_sink)
  show ?thesis by (rule conjI [OF c1 conjI [OF c2 c3]])
qed

lemmas ui_eval =
  run_ui_def ui_step_def ui_op_step.simps updateDisplay_def scheduleFlush_def flushTimerFired_def
  flushPendingUpdate_def showFinalStats_def clear_def setUpdateInterval_def displayLogged_def
  display_def getColorVariant_def newUIManager_def createUIManager_def returned.simps
  lastShown.simps failedFinalSince.simps exampleFormat_def exampleConfig_def workingClient_def
  failingClient_def MIN_TOAST_INTERVAL_MS_def DEFAULT_TOAST_DURATION_MS_def
  FINAL_STATS_DURATION_MS_def Let_def


text \<open>
  As stated, the claim fails after a final-stats emission that no sink accepted. A text
  is shown at time 1000; at time 2000 \<open>showFinalStats\<close> blanks the remembered text,
  and its own emission fails because the sink throws. The last text successfully shown
  is still that of time 1000, yet the non-final emission of the same text at time 9000 is
  not suppressed: it is shown again.
\<close>

theorem C7_counterexample:
  "map (\<lambda>e. (em_at e, em_text e, em_final e, em_shown e))
     (snd (run_ui exampleFormat exampleConfig
        [(900, workingClient, CallUpdateDisplay 5 5 100 900),
         (1000, workingClient, FlushTimerFires),
         (2000, failingClient, CallShowFinalStats 100 5 1000),
         (8900, workingClient, CallUpdateDisplay 5 5 100 8900),
         (9000, workingClient, FlushTimerFires)]))
   = [(9000, ''TPS: 5.0 (avg 5.0) | tokens: 100'', False, True),
      (2000, ''TPS: 0.0 (avg 5.0) | tokens: 100'', True, False),
      (1000, ''TPS: 5.0 (avg 5.0) | tokens: 100'', False, True)]"
  by (simp add: ui_eval)


text \<open>
  At a concrete input: the manager is created, \<open>updateDisplay\<close> is called and the
  flush timer fires at time 1000, which shows the text. When the same state is set again
  and flushed at time 9000, the emission calls no sink. A call of \<open>display\<close> after the
  first flush is suppressed with the same text eight seconds later, and with another text
  100 ms later (the guard is 150 ms at the default interval of 50 ms); a final call with
  the text just shown, at the very same instant, reaches the sink.
\<close>

theorem C7_flood_guard_witness:
  "em_calls (hd (snd (run_ui exampleFormat exampleConfig
        [(900, workingClient, CallUpdateDisplay 5 5 100 900),
         (1000, workingClient, FlushTimerFires),
         (8900, workingClient, CallUpdateDisplay 5 5 100 8900),
         (9000, workingClient, FlushTimerFires)]))) = []
   \<and>
   map (\<lambda>e. (em_at e, em_text e, em_final e, em_shown e))
     (snd (run_ui exampleFormat exampleConfig
        [(900, workingClient, CallUpdateDisplay 5 5 100 900),
         (1000, workingClient, FlushTimerFires),
         (8900, workingClient, CallUpdateDisplay 5 5 100 8900),
         (9000, workingClient, FlushTimerFires)]))
   = [(9000, ''TPS: 5.0 (avg 5.0) | tokens: 100'', False, False),
      (1000, ''TPS: 5.0 (avg 5.0) | tokens: 100'', False, True)]
   \<and>
   display workingClient 9000 ''TPS: 5.0 (avg 5.0) | tokens: 100'' False 5
     (displayVars (fst (run_ui exampleFormat exampleConfig
        [(900, workingClient, CallUpdateDisplay 5 5 100 900),
         (1000, workingClient, FlushTimerFires)])))
     = (displayVars (fst (run_ui exampleFormat exampleConfig
        [(900, workingClient, CallUpdateDisplay 5 5 100 900),
         (1000, workingClient, FlushTimerFires)])), [])
   \<and>
   display workingClient 1100 ''TPS: 9.0 (avg 7.0) | tokens: 120'' False 9
     (displayVars (fst (run_ui exampleFormat exampleConfig
        [(900, workingClient, CallUpdateDisplay 5 5 100 900),
         (1000, workingClient, FlushTimerFires)])))
     = (displayVars (fst (run_ui exampleFormat exampleConfig
        [(900, workingClient, CallUpdateDisplay 5 5 100 900),
         (1000, workingClient, FlushTimerFires)])), [])
   \<and>
   snd (display workingClient 1000 ''TPS: 5.0 (avg 5.0) | tokens: 100'' True 0
     (displayVars (fst (run_ui exampleFormat exampleConfig
        [(900, workingClient, CallUpdateDisplay 5 5 100 900),
         (1000, workingClient, FlushTimerFires)])))) \<noteq> []"
proof -
  let ?ops = "[(900, workingClient, CallUpdateDisplay 5 5 100 900),
         (1000, workingClient, FlushTimerFires)]"
  let ?ops4 = "[(900, workingClient, CallUpdateDisplay 5 5 100 900),
         (1000, workingClient, FlushTimerFires),
         (8900, workingClient, CallUpdateDisplay 5 5 100 8900),
         (9000, workingClient, FlushTimerFires)]"
  let ?m = "fst (run_ui exampleFormat exampleConfig ?ops)"
  let ?h = "snd (run_ui exampleFormat exampleConfig ?ops)"
  let ?m4 = "fst (run_ui exampleFormat exampleConfig ?ops4)"
  let ?h4 = "snd (run_ui exampleFormat exampleConfig ?ops4)"
  let ?X = "''TPS: 5.0 (avg 5.0) | tokens: 100''"
  let ?e = "\<lparr> em_at = 1000, em_text = ?X, em_final = False, em_minInterval = 150,
              em_calls = [ShowToast ?X Info 20000], em_shown = True \<rparr>"
  have r: "run_ui exampleFormat exampleConfig ?ops = (?m, ?h)" by simp
  have l: "lastShown ?h = Some ?e" by (simp add: ui_eval)
  have f: "\<not> failedFinalSince ?h" by (simp add: ui_eval)
  have i: "updateIntervalMs (uiConfig (displayVars ?m)) = 50" by (simp add: ui_eval)
  have s: "tui_showToast workingClient \<noteq> None" by (simp add: workingClient_def)
  have t4: "tl ?h4 = [?e]" by (simp add: ui_eval)
  have n4: "?h4 \<noteq> []" by (simp add: ui_eval)
  have r4: "run_ui exampleFormat exampleConfig ?ops4 = (?m4, [] @ hd ?h4 # [?e])"
    using t4 n4 by (metis append_Nil list.collapse prod.collapse)
  have nf: "\<not> em_final (hd ?h4)" by (simp add: ui_eval)
  have tx: "em_text (hd ?h4) = em_text ?e" by (simp add: ui_eval)
  have l4: "lastShown [?e] = Some ?e" by simp
  have f4: "\<not> failedFinalSince [?e]" by simp
  have c0: "em_calls (hd ?h4) = []"
    using C7_flood_guard [where formatDisplay = exampleFormat and config = exampleConfig
        and ops = ?ops4 and m = ?m4 and later = "[]" and e = "hd ?h4" and earlier = "[?e]"
        and ?e0.0 = ?e, THEN conjunct1] r4 nf tx l4 f4
    by blast
  have c00: "map (\<lambda>e. (em_at e, em_text e, em_final e, em_shown e)) ?h4
      = [(9000, ?X, False, False), (1000, ?X, False, True)]"
    by (simp add: ui_eval)
  have c1: "display workingClient 9000 ?X False 5 (displayVars ?m) = (displayVars ?m, [])"
    using C7_flood_guard [where formatDisplay = exampleFormat and config = exampleConfig
        and ops = ?ops and m = ?m and h = ?h and ?e0.0 = ?e and message = ?X and now = 9000
        and client = workingClient and instantTps = 5, THEN conjunct2, THEN conjunct1] r l f
    by simp
  have c2: "display workingClient 1100 ''TPS: 9.0 (avg 7.0) | tokens: 120'' False 9 (displayVars ?m)
      = (displayVars ?m, [])"
    using C7_flood_guard [where formatDisplay = exampleFormat and config = exampleConfig
        and ops = ?ops and m = ?m and h = ?h and ?e0.0 = ?e
        and message = "''TPS: 9.0 (avg 7.0) | tokens: 120''" and now = 1100
        and client = workingClient and instantTps = 9, THEN conjunct2, THEN conjunct1] r l i
    by simp
  have c3: "snd (display workingClient 1000 ?X True 0 (displayVars ?m)) \<noteq> []"
    using C7_flood_guard [where client = workingClient and now = 1000 and message = ?X
        and instantTps = 0 and s = "displayVars ?m", THEN conjunct2, THEN conjunct2] s
    by simp
  show ?thesis using c0 c00 c1 c2 c3 by blast
qed

subsection \<open>Sink fallback chain\<close>

text \<open>
  Claim C8. On every call of \<open>display\<close> the sinks are attempted in the order of
  \<open>sink_chain\<close>: \<open>tui.showToast\<close>, then \<open>tui.publish\<close>, then \<open>toast.info\<close> or
  \<open>toast.success\<close>. The calls made are those of the sinks that threw before the first
  one that returned, followed by that one; no sink after it is called.
  \<open>lastToastAt\<close> and \<open>lastToastMessage\<close> are updated exactly when some sink returned;
  when every sink throws, the state is returned as it was. \<open>display\<close> has no error
  result: every throw of a sink is caught inside it. (A call that the flood guard
  suppresses attempts no sink at all.)
\<close>

theorem C8_sink_fallback:
  "display client now message isFinal instantTps s =
     (if \<not> isFinal \<and>
         (message = lastToastMessage s \<or>
          now - lastToastAt s < max 150 (3 * updateIntervalMs (uiConfig s)))
      then (s, [])
      else
        let chain = sink_chain client (uiConfig s) message isFinal instantTps;
            thrown = takeWhile (\<lambda>(call, returns). \<not> returns) chain;
            rest = dropWhile (\<lambda>(call, returns). \<not> returns) chain
        in ((if rest \<noteq> [] then s\<lparr>lastToastAt := now, lastToastMessage := message\<rparr> else s),
            map fst thrown @ map fst (take 1 rest)))"
proof (cases "\<not> isFinal \<and> (message = lastToastMessage s \<or>
      now - lastToastAt s < max MIN_TOAST_INTERVAL_MS (updateIntervalMs (uiConfig s) * 3))")
  case True
  then show ?thesis
    by (auto simp: display_def Let_def MIN_TOAST_INTERVAL_MS_def mult.commute)
next
  case False
  then have g: "\<not> (\<not> isFinal \<and> (message = lastToastMessage s \<or>
      now - lastToastAt s < max 150 (3 * updateIntervalMs (uiConfig s))))"
    by (auto simp: MIN_TOAST_INTERVAL_MS_def mult.commute)
  show ?thesis
    unfolding display_def sink_chain_def Let_def
    apply (simp only: False g if_False)
    apply (cases "tui_showToast client"; cases "tui_publish client";
        cases "toast_success client"; cases "toast_info client")
                   apply simp_all
    done
qed

text \<open>
  At a concrete input, on a fresh manager at time 1000: when \<open>tui.showToast\<close> throws
  and \<open>tui.publish\<close> returns, both are called, \<open>toast.info\<close> is not, and the
  bookkeeping is updated; when all three throw, all three are called and the state is
  unchanged.
\<close>

theorem C8_sink_fallback_witness:
  "display
     \<lparr>tui_showToast = Some (\<lambda>m v d. False), tui_publish = Some (\<lambda>m v d. True),
       toast_info = Some (\<lambda>m d. True), toast_success = Some (\<lambda>m d. True)\<rparr>
     1000 ''TPS: 5.0'' False 5
     (createUIManager \<lparr>updateIntervalMs = 50, enableColorCoding = False, slowTpsThreshold = 10,
         fastTpsThreshold = 50\<rparr>)
   = (\<lparr>uiConfig = \<lparr>updateIntervalMs = 50, enableColorCoding = False, slowTpsThreshold = 10,
         fastTpsThreshold = 50\<rparr>,
       lastToastAt = 1000, lastToastMessage = ''TPS: 5.0''\<rparr>,
      [ShowToast ''TPS: 5.0'' Info 20000, Publish ''TPS: 5.0'' Info 20000])
   \<and>
   display
     \<lparr>tui_showToast = Some (\<lambda>m v d. False), tui_publish = Some (\<lambda>m v d. False),
       toast_info = Some (\<lambda>m d. False), toast_success = Some (\<lambda>m d. False)\<rparr>
     1000 ''TPS: 5.0'' False 5
     (createUIManager \<lparr>updateIntervalMs = 50, enableColorCoding = False, slowTpsThreshold = 10,
         fastTpsThreshold = 50\<rparr>)
   = (createUIManager \<lparr>updateIntervalMs = 50, enableColorCoding = False, slowTpsThreshold = 10,
         fastTpsThreshold = 50\<rparr>,
      [ShowToast ''TPS: 5.0'' Info 20000, Publish ''TPS: 5.0'' Info 20000,
       ToastInfo ''TPS: 5.0'' 20000])"
  using
    C8_sink_fallback [where isFinal = False and message = "''TPS: 5.0''" and now = 1000
      and instantTps = 5
      and s = "createUIManager \<lparr>updateIntervalMs = 50, enableColorCoding = False,
         slowTpsThreshold = 10, fastTpsThreshold = 50\<rparr>"
      and client = "\<lparr>tui_showToast = Some (\<lambda>m v d. False), tui_publish = Some (\<lambda>m v d. True),
         toast_info = Some (\<lambda>m d. True), toast_success = Some (\<lambda>m d. True)\<rparr>"]
    C8_sink_fallback [where isFinal = False and message = "''TPS: 5.0''" and now = 1000
      and instantTps = 5
      and s = "createUIManager \<lparr>updateIntervalMs = 50, enableColorCoding = False,
         slowTpsThreshold = 10, fastTpsThreshold = 50\<rparr>"
      and client = "\<lparr>tui_showToast = Some (\<lambda>m v d. False), tui_publish = Some (\<lambda>m v d. False),
         toast_info = Some (\<lambda>m d. False), toast_success = Some (\<lambda>m d. False)\<rparr>"]
  by (simp add: createUIManager_def sink_chain_def getColorVariant_def ui_consts)

section \<open>Properties of the plugin\<close>

subsection \<open>The primary session\<close>

lemma primary_getOrCreateSessionState [simp]:
  "primarySessionId (snd (getOrCreateSessionState cfg now sid st)) = primarySessionId st"
  by (simp add: getOrCreateSessionState_def Let_def split: option.splits)

lemma primary_getOrCreateMessageTrackerState [simp]:
  "primarySessionId (snd (getOrCreateMessageTrackerState cfg now sid mid pid md st)) = primarySessionId st"
proof -
  obtain ss st1 where g: "getOrCreateSessionState cfg now sid st = (ss, st1)"
    by (cases "getOrCreateSessionState cfg now sid st")
  then have "primarySessionId st1 = primarySessionId st"
    using primary_getOrCreateSessionState [of cfg now sid st] by simp
  then show ?thesis
    by (simp add: getOrCreateMessageTrackerState_def g Let_def)
qed

lemma primary_deleteStaleKey [simp]:
  "primarySessionId (deleteStaleKey sid st k) = primarySessionId st"
  by (simp add: deleteStaleKey_def Let_def split: option.splits)

lemma primary_foldl_deleteStaleKey [simp]:
  "primarySessionId (foldl (deleteStaleKey sid) st ks) = primarySessionId st"
  by (induction ks arbitrary: st) simp_all

lemma primary_cleanupSession [simp]:
  "primarySessionId (cleanupSession now st sid) = primarySessionId st"
  by (simp add: cleanupSession_def Let_def split: option.splits)

lemma primary_foldl_cleanupSession [simp]:
  "primarySessionId (foldl (cleanupSession now) st sids) = primarySessionId st"
  by (induction sids arbitrary: st) simp_all

lemma primary_cleanupStaleMessages [simp]:
  "primarySessionId (cleanupStaleMessages now st) = primarySessionId st"
  by (simp add: cleanupStaleMessages_def)

lemma primary_ui_call [simp]: "primarySessionId (ui_call c st) = primarySessionId st"
  by (simp add: ui_call_def)

lemma primary_clearDisplayTimer [simp]:
  "primarySessionId (clearDisplayTimer sid st) = primarySessionId st"
  by (simp add: clearDisplayTimer_def)

lemma primary_scheduleDisplayTimer [simp]:
  "primarySessionId (scheduleDisplayTimer now sid st) = primarySessionId st"
  by (simp add: scheduleDisplayTimer_def)

lemma primary_removeMessageTrackerState [simp]:
  "primarySessionId (removeMessageTrackerState now sid mid st) = primarySessionId st"
  by (simp add: removeMessageTrackerState_def Let_def split: option.splits)

lemma primary_displayTimerFired [simp]:
  "primarySessionId (displayTimerFired cfg now sid st) = primarySessionId st"
  by (simp add: displayTimerFired_def Let_def split: option.splits)

lemma primary_showFinalStatsOnCompletion [simp]:
  "primarySessionId (showFinalStatsOnCompletion info mt r c st) = primarySessionId st"
  by (simp add: showFinalStatsOnCompletion_def Let_def split: option.splits)

lemma primary_forgetPartTexts [simp]:
  "primarySessionId (forgetPartTexts sid mid st) = primarySessionId st"
  by (simp add: forgetPartTexts_def)

lemma primary_forgetMessage [simp]:
  "primarySessionId (forgetMessage now sid mid st) = primarySessionId st"
  by (simp add: forgetMessage_def)

lemma primary_assistantUpdated [simp]:
  "primarySessionId (assistantUpdated cfg now info st) = primarySessionId st"
proof -
  obtain mt st1 where g: "getOrCreateMessageTrackerState cfg now (info_sessionID info) (info_id info)
      None (infoMetadata info) st = (mt, st1)"
    by (cases "getOrCreateMessageTrackerState cfg now (info_sessionID info) (info_id info)
      None (infoMetadata info) st")
  then have "primarySessionId st1 = primarySessionId st"
    using primary_getOrCreateMessageTrackerState
      [of cfg now "info_sessionID info" "info_id info" None "infoMetadata info" st] by simp
  then show ?thesis
    by (simp add: assistantUpdated_def g Let_def)
qed

lemma primary_handleMessageUpdated [simp]:
  "primarySessionId (handleMessageUpdated cfg now infoOpt st) = primarySessionId st"
  by (simp add: handleMessageUpdated_def Let_def split: option.splits agent_value.splits)

lemma primary_resolveDelta [simp]:
  "primarySessionId (snd (resolveDelta part delta st)) = primarySessionId st"
  by (simp add: resolveDelta_def Let_def)

text \<open>The reaper never removes a session, and a looked-up session is in the registry.\<close>

lemma map_of_Some_key: "map_of xs k = Some v \<Longrightarrow> k \<in> fst ` set xs"
  by (metis map_of_eq_None_iff option.distinct(1))

lemma keys_deleteStaleKey [simp]:
  "fst ` set (sessionTrackers (deleteStaleKey sid st k)) = fst ` set (sessionTrackers st)"
  by (auto simp: deleteStaleKey_def Let_def dom_update dest: map_of_Some_key
      split: option.splits)

lemma keys_foldl_deleteStaleKey [simp]:
  "fst ` set (sessionTrackers (foldl (deleteStaleKey sid) st ks)) = fst ` set (sessionTrackers st)"
  by (induction ks arbitrary: st) simp_all

lemma keys_cleanupSession [simp]:
  "fst ` set (sessionTrackers (cleanupSession now st sid)) = fst ` set (sessionTrackers st)"
proof (cases "map_of (sessionTrackers st) sid")
  case None
  then show ?thesis by (simp add: cleanupSession_def)
next
  case (Some ss)
  let ?ks = "map fst (filter (\<lambda>kv. lastUpdated (snd kv) > 0 \<and>
      now - lastUpdated (snd kv) > MAX_MESSAGE_AGE_MS) (messageTrackers ss))"
  let ?st1 = "foldl (deleteStaleKey sid) st ?ks"
  have k1: "fst ` set (sessionTrackers ?st1) = fst ` set (sessionTrackers st)" by simp
  show ?thesis
  proof (cases "map_of (sessionTrackers ?st1) sid")
    case None
    then show ?thesis using Some k1 by (simp add: cleanupSession_def Let_def)
  next
    case (Some s1)
    then have "sid \<in> fst ` set (sessionTrackers ?st1)"
      by (rule map_of_Some_key)
    then show ?thesis using \<open>map_of (sessionTrackers st) sid = Some ss\<close> Some k1
      by (auto simp: cleanupSession_def Let_def dom_update)
  qed
qed

lemma keys_foldl_cleanupSession [simp]:
  "fst ` set (sessionTrackers (foldl (cleanupSession now) st sids)) = fst ` set (sessionTrackers st)"
  by (induction sids arbitrary: st) simp_all

lemma keys_cleanupStaleMessages [simp]:
  "fst ` set (sessionTrackers (cleanupStaleMessages now st)) = fst ` set (sessionTrackers st)"
  by (simp add: cleanupStaleMessages_def)

lemma session_present_getOrCreateSessionState:
  "sid \<in> fst ` set (sessionTrackers (snd (getOrCreateSessionState cfg now sid st)))"
  by (auto simp: getOrCreateSessionState_def Let_def dom_update dest: map_of_Some_key
      split: option.splits)

lemma session_present_getOrCreateMessageTrackerState:
  "sid \<in> fst ` set (sessionTrackers (snd (getOrCreateMessageTrackerState cfg now sid mid pid md st)))"
  by (cases "getOrCreateSessionState cfg now sid st")
    (simp add: getOrCreateMessageTrackerState_def Let_def dom_update)

text \<open>What the handler does to the primary session.\<close>

lemma primary_noteFirstToken:
  "primarySessionId (snd (snd (noteFirstToken now sid ss mt st))) =
     (if \<not> truthyNum (firstTokenAt mt) \<and> \<not> hasAgentMetadata mt \<and> primarySessionId st = None
      then Some sid else primarySessionId st)"
  by (simp add: noteFirstToken_def Let_def hasAgentMetadata_def)

lemma primary_countDelta [simp]:
  "primarySessionId (snd (countDelta cfg now sid mid d attached ss mt st)) = primarySessionId st"
  by (simp add: countDelta_def Let_def)

lemma primary_showUpdate [simp]:
  "primarySessionId (showUpdate cfg now sid ss st) = primarySessionId st"
  by (simp add: showUpdate_def Let_def)

lemma primary_recordDelta:
  "primarySessionId (recordDelta cfg now part d st) =
     (if \<not> truthyNum (firstTokenAt (partStream cfg now part st)) \<and>
         \<not> hasAgentMetadata (partStream cfg now part st) \<and> primarySessionId st = None
      then Some (partSessionId part) else primarySessionId st)"
proof -
  let ?sid = "partSessionId part"
  let ?st2 = "snd (getOrCreateSessionState cfg now ?sid st)"
  obtain mt st3 where g: "getOrCreateMessageTrackerState cfg now ?sid (part_messageID part) (part_id part)
      (partMetadata part) ?st2 = (mt, st3)"
    by (cases "getOrCreateMessageTrackerState cfg now ?sid (part_messageID part) (part_id part)
      (partMetadata part) ?st2")
  have mt: "partStream cfg now part st = mt" by (simp add: partStream_def g)
  have p3: "primarySessionId st3 = primarySessionId st"
    using primary_getOrCreateMessageTrackerState
      [of cfg now ?sid "part_messageID part" "part_id part" "partMetadata part" ?st2] g by simp
  let ?st4 = "cleanupStaleMessages now st3"
  have p4: "primarySessionId ?st4 = primarySessionId st" using p3 by simp
  have "?sid \<in> fst ` set (sessionTrackers st3)"
    using session_present_getOrCreateMessageTrackerState
      [of ?sid cfg now "part_messageID part" "part_id part" "partMetadata part" ?st2] g by simp
  then have "?sid \<in> fst ` set (sessionTrackers ?st4)" by simp
  then obtain ss where ss: "map_of (sessionTrackers ?st4) ?sid = Some ss"
    by (metis map_of_eq_None_iff not_Some_eq)
  obtain s1 m1 st5 where n: "noteFirstToken now ?sid ss mt ?st4 = (s1, m1, st5)"
    by (cases "noteFirstToken now ?sid ss mt ?st4")
  have p5: "primarySessionId st5 =
     (if \<not> truthyNum (firstTokenAt mt) \<and> \<not> hasAgentMetadata mt \<and> primarySessionId st = None
      then Some ?sid else primarySessionId st)"
    using primary_noteFirstToken [of now ?sid ss mt ?st4] n p4 by simp
  obtain s2 st6 where c: "countDelta cfg now ?sid (part_messageID part) d
      (map_of (messageTrackers ss) (key mt) \<noteq> None) s1 m1 st5 = (s2, st6)"
    by (cases "countDelta cfg now ?sid (part_messageID part) d
      (map_of (messageTrackers ss) (key mt) \<noteq> None) s1 m1 st5")
  have p6: "primarySessionId st6 = primarySessionId st5"
    using c by (metis primary_countDelta snd_conv)
  have "recordDelta cfg now part d st = showUpdate cfg now ?sid s2 st6"
    by (simp only: recordDelta_def Let_def g ss n c option.case prod.case)
  then show ?thesis by (simp add: p6 p5 mt)
qed

lemma primary_handleMessagePartUpdated:
  "primarySessionId (handleMessagePartUpdated cfg now partOpt delta st) = primarySessionId st \<or>
   (primarySessionId st = None \<and>
    (\<exists>part. partOpt = Some part \<and>
       primarySessionId (handleMessagePartUpdated cfg now partOpt delta st) = Some (partSessionId part) \<and>
       \<not> hasAgentMetadata (partStream cfg now part (snd (resolveDelta part delta st)))))"
proof (cases partOpt)
  case None
  then show ?thesis by (simp add: handleMessagePartUpdated_def)
next
  case (Some part)
  obtain dl st1 where rd: "resolveDelta part delta st = (dl, st1)"
    by (cases "resolveDelta part delta st")
  then have p1: "primarySessionId st1 = primarySessionId st"
    using primary_resolveDelta [of part delta st] by simp
  show ?thesis
    using Some rd p1
    by (auto simp: handleMessagePartUpdated_def primary_recordDelta split: option.splits)
qed

lemma primary_handleSessionIdle:
  "primarySessionId (handleSessionIdle sidOpt st) = primarySessionId st \<or>
   (primarySessionId (handleSessionIdle sidOpt st) = None \<and>
    sessionTrackers (handleSessionIdle sidOpt st) = [])"
  by (simp add: handleSessionIdle_def Let_def cleanup_def ui_call_def clearDisplayTimer_def)


lemmas plugin_eval =
  run_def handleMessageUpdated_def assistantUpdated_def getOrCreateMessageTrackerState_def
  getOrCreateSessionState_def buildTrackerKey_def buildAgentLabel_def orElse_def truthyStr_def
  truthyNum_def truthyAgent_def agentField_def template_def abbreviateId_def infoMetadata_def
  showFinalStatsOnCompletion_def completedAt_def forgetPartTexts_def forgetMessage_def
  removeMessageTrackerState_def handleMessagePartUpdated_def resolveDelta_def partSessionId_def
  extractPartText_def partCacheKey_def cachedRole_def cachedText_def partMetadata_def recordDelta_def
  cleanupStaleMessages_def cleanupSession_def deleteStaleKey_def noteFirstToken_def
  countDelta_def showUpdate_def hasAgentMetadata_def scheduleDisplayTimer_def
  clearDisplayTimer_def ui_call_def handleSessionIdle_def cleanup_def initialState_def
  partStream_def
  COUNTABLE_PART_TYPES_def CLEANUP_INTERVAL_MS_def MIN_TPS_ELAPSED_MS_def MAX_MESSAGE_AGE_MS_def
  tokenizer_count.simps countByChars_def ceilDiv_def trim_def isWhitespace_def
  stripSesPrefix_def activityWindow_def isPrimarySessionActive_def INVALID_FINISH_REASONS_def
  reset_def displayTimerFired_def Let_def
  AList.delete_eq

lemma hasAgentMetadata_partStream:
  assumes "truthyAgent (part_agent part) \<or> truthyStr (part_agentId part) \<or> truthyStr (part_agentType part)"
  shows "hasAgentMetadata (partStream cfg now part st)"
proof -
  obtain ss st1 where g: "getOrCreateSessionState cfg now (partSessionId part)
      (snd (getOrCreateSessionState cfg now (partSessionId part) st)) = (ss, st1)"
    by (cases "getOrCreateSessionState cfg now (partSessionId part)
      (snd (getOrCreateSessionState cfg now (partSessionId part) st))")
  show ?thesis
    using assms
    by (auto simp: partStream_def getOrCreateMessageTrackerState_def g Let_def
        hasAgentMetadata_def partMetadata_def)
qed

lemma isPrimarySessionActive_agents_only:
  assumes "primarySessionId st = Some p" and "map_of (sessionTrackers st) p = Some ss"
    and "list_all (\<lambda>kv. hasAgentMetadata (snd kv)) (messageTrackers ss)"
  shows "\<not> isPrimarySessionActive cfg now st"
  using assms
  by (auto simp: isPrimarySessionActive_def list_all_iff list_ex_iff)

lemma primary_plugin_step:
  assumes "primarySessionId st = Some p"
  shows "primarySessionId (plugin_step cfg st (now, s)) = Some p \<or>
         (primarySessionId (plugin_step cfg st (now, s)) = None \<and>
          sessionTrackers (plugin_step cfg st (now, s)) = [] \<and> isSessionIdle s)"
proof (cases s)
  case (Event ev)
  show ?thesis
  proof (cases ev)
    case (MessagePartUpdated partOpt delta)
    then show ?thesis
      using Event assms primary_handleMessagePartUpdated [of cfg now partOpt delta st] by auto
  next
    case (MessageUpdated infoOpt)
    then show ?thesis using Event assms by simp
  next
    case (SessionIdle sidOpt)
    then show ?thesis
      using Event assms primary_handleSessionIdle [of sidOpt st] by auto
  next
    case UnknownEvent
    then show ?thesis using Event assms by simp
  qed
next
  case (TimerFires sid)
  then show ?thesis using assms by (simp split: option.splits)
qed

lemma primary_run_without_idle:
  assumes "primarySessionId st = Some p" and "list_all (\<lambda>x. \<not> isSessionIdle (snd x)) steps"
  shows "primarySessionId (run cfg st steps) = Some p"
  using assms unfolding run_def
proof (induction steps arbitrary: st)
  case Nil
  then show ?case by simp
next
  case (Cons x xs)
  obtain now s where x: "x = (now, s)" by (cases x)
  have "\<not> isSessionIdle s" using Cons.prems(2) x by simp
  then have "primarySessionId (plugin_step cfg st x) = Some p"
    using primary_plugin_step [OF Cons.prems(1), of cfg now s] x by auto
  then show ?case using Cons.IH Cons.prems(2) by simp
qed

text \<open>
  What each kind of step does to the assignment, exactly: a counted part event assigns
  its session when the stream has no agent metadata, records its first token and no
  primary is set, and changes nothing otherwise; a \<open>session.idle\<close> event clears the
  assignment when it removes the last tracked session, and changes nothing otherwise;
  no other step touches it.
\<close>

lemma primary_part_event:
  "primarySessionId (handleEvent cfg now (MessagePartUpdated (Some part) delta) st) =
     (if partCounted part delta st \<and>
         \<not> truthyNum (firstTokenAt (partStream cfg now part (snd (resolveDelta part delta st)))) \<and>
         \<not> hasAgentMetadata (partStream cfg now part (snd (resolveDelta part delta st))) \<and>
         primarySessionId st = None
      then Some (partSessionId part) else primarySessionId st)"
proof -
  obtain dl st1 where rd: "resolveDelta part delta st = (dl, st1)"
    by (cases "resolveDelta part delta st")
  then have p1: "primarySessionId st1 = primarySessionId st"
    using primary_resolveDelta [of part delta st] by simp
  show ?thesis
    using rd p1
    by (auto simp: handleMessagePartUpdated_def primary_recordDelta partCounted_def
        split: option.splits)
qed

lemma primary_idle_event:
  "primarySessionId (handleEvent cfg now (SessionIdle sidOpt) st) =
     (if AList.delete (idleSessionId sidOpt) (sessionTrackers st) = [] then None
      else primarySessionId st)"
  by (simp add: handleSessionIdle_def Let_def cleanup_def ui_call_def clearDisplayTimer_def
      idleSessionId_def)

lemma primary_other_steps:
  "primarySessionId (handleEvent cfg now (MessagePartUpdated None delta) st) = primarySessionId st"
  "primarySessionId (handleEvent cfg now (MessageUpdated info) st) = primarySessionId st"
  "primarySessionId (handleEvent cfg now UnknownEvent st) = primarySessionId st"
  "primarySessionId (plugin_step cfg st (now, TimerFires sid)) = primarySessionId st"
  by (simp_all add: handleMessagePartUpdated_def split: option.splits)

text \<open>
  \<open>isPrimarySessionActive\<close> looks only at the streams without agent metadata: taking
  the streams with agent metadata out of the registry does not change its answer, and it
  answers true exactly when the primary session holds a stream without agent metadata
  that has recorded a first token and was updated within the activity window.
\<close>

lemma map_of_map_value: "map_of (map (\<lambda>(k, v). (k, f v)) xs) k = map_option f (map_of xs k)"
  by (induction xs) auto

lemma isPrimarySessionActive_withoutAgentStreams:
  "isPrimarySessionActive cfg now (withoutAgentStreams st) = isPrimarySessionActive cfg now st"
  by (auto simp: isPrimarySessionActive_def withoutAgentStreams_def map_of_map_value list_ex_iff
      split: option.splits; force)

lemma isPrimarySessionActive_iff:
  "isPrimarySessionActive cfg now st =
     (\<exists>p ss kv. primarySessionId st = Some p \<and> p \<noteq> [] \<and>
        map_of (sessionTrackers st) p = Some ss \<and> kv \<in> set (messageTrackers ss) \<and>
        \<not> hasAgentMetadata (snd kv) \<and> truthyNum (firstTokenAt (snd kv)) \<and>
        now - lastUpdated (snd kv) \<le> activityWindow cfg)"
  by (auto simp: isPrimarySessionActive_def list_ex_iff split: option.splits; force)

text \<open>
  Claim C5, as amended. Once a primary session is assigned, no step of the plugin assigns
  another session directly: every step leaves the assignment as it is, except a
  \<open>session.idle\<close> event that removes the last tracked session and so runs
  \<open>cleanup()\<close>, which clears the assignment to \<open>null\<close>. Hence the primary session
  is the same after any sequence of steps that holds no \<open>session.idle\<close> event. A
  part event that carries agent metadata, or whose tracker holds agent metadata, never
  changes the assignment, and \<open>isPrimarySessionActive\<close> is false when every tracker of
  the primary session carries agent metadata.

  The assignment itself is made by a counted part event, in any state and so also after a
  reset: the event assigns its own session exactly when its stream has no agent metadata,
  has not recorded a first token, and no primary is set; in every other case it leaves the
  assignment as it is. A \<open>session.idle\<close> event clears the assignment exactly when the
  session it removes is the last one tracked.

  A stream that carries agent metadata never counts as primary activity:
  \<open>isPrimarySessionActive\<close> answers the same with all such streams taken out of the
  registry, and it is true exactly when the primary session holds a stream without agent
  metadata that has recorded a first token and was updated within the activity window.
\<close>

theorem C5_primary_sticky_until_reset:
  "(primarySessionId st = Some p \<longrightarrow>
      primarySessionId (plugin_step cfg st (now, s)) = Some p \<or>
      (primarySessionId (plugin_step cfg st (now, s)) = None \<and>
       sessionTrackers (plugin_step cfg st (now, s)) = [] \<and> isSessionIdle s))
   \<and> (primarySessionId st = Some p \<and> list_all (\<lambda>x. \<not> isSessionIdle (snd x)) steps \<longrightarrow>
        primarySessionId (run cfg st steps) = Some p)
   \<and> (truthyAgent (part_agent part) \<or> truthyStr (part_agentId part) \<or>
       truthyStr (part_agentType part) \<or>
       hasAgentMetadata (partStream cfg now part (snd (resolveDelta part delta st))) \<longrightarrow>
        primarySessionId (handleEvent cfg now (MessagePartUpdated (Some part) delta) st)
          = primarySessionId st)
   \<and> (primarySessionId st = Some p \<and> map_of (sessionTrackers st) p = Some ss \<and>
       list_all (\<lambda>kv. hasAgentMetadata (snd kv)) (messageTrackers ss) \<longrightarrow>
        \<not> isPrimarySessionActive cfg now st)
   \<and> primarySessionId (handleEvent cfg now (MessagePartUpdated (Some part) delta) st) =
       (if partCounted part delta st \<and>
           \<not> truthyNum (firstTokenAt (partStream cfg now part (snd (resolveDelta part delta st)))) \<and>
           \<not> hasAgentMetadata (partStream cfg now part (snd (resolveDelta part delta st))) \<and>
           primarySessionId st = None
        then Some (partSessionId part) else primarySessionId st)
   \<and> primarySessionId (handleEvent cfg now (SessionIdle sidOpt) st) =
       (if AList.delete (idleSessionId sidOpt) (sessionTrackers st) = [] then None
        else primarySessionId st)
   \<and> isPrimarySessionActive cfg now (withoutAgentStreams st) = isPrimarySessionActive cfg now st
   \<and> isPrimarySessionActive cfg now st =
       (\<exists>q qs kv. primarySessionId st = Some q \<and> q \<noteq> [] \<and>
          map_of (sessionTrackers st) q = Some qs \<and> kv \<in> set (messageTrackers qs) \<and>
          \<not> hasAgentMetadata (snd kv) \<and> truthyNum (firstTokenAt (snd kv)) \<and>
          now - lastUpdated (snd kv) \<le> activityWindow cfg)"
proof -
  have c1: "primarySessionId st = Some p \<longrightarrow>
      primarySessionId (plugin_step cfg st (now, s)) = Some p \<or>
      (primarySessionId (plugin_step cfg st (now, s)) = None \<and>
       sessionTrackers (plugin_step cfg st (now, s)) = [] \<and> isSessionIdle s)"
    using primary_plugin_step by blast
  have c2: "primarySessionId st = Some p \<and> list_all (\<lambda>x. \<not> isSessionIdle (snd x)) steps \<longrightarrow>
        primarySessionId (run cfg st steps) = Some p"
    using primary_run_without_idle by blast
  have c3: "truthyAgent (part_agent part) \<or> truthyStr (part_agentId part) \<or>
       truthyStr (part_agentType part) \<or>
       hasAgentMetadata (partStream cfg now part (snd (resolveDelta part delta st))) \<longrightarrow>
        primarySessionId (handleEvent cfg now (MessagePartUpdated (Some part) delta) st)
          = primarySessionId st"
  proof
    assume a: "truthyAgent (part_agent part) \<or> truthyStr (part_agentId part) \<or>
       truthyStr (part_agentType part) \<or>
       hasAgentMetadata (partStream cfg now part (snd (resolveDelta part delta st)))"
    have "hasAgentMetadata (partStream cfg now part (snd (resolveDelta part delta st)))"
      using a hasAgentMetadata_partStream [of part cfg now "snd (resolveDelta part delta st)"]
      by blast
    then show "primarySessionId (handleEvent cfg now (MessagePartUpdated (Some part) delta) st)
          = primarySessionId st"
      by (simp only: primary_part_event if_False simp_thms)
  qed
  have c4: "primarySessionId st = Some p \<and> map_of (sessionTrackers st) p = Some ss \<and>
       list_all (\<lambda>kv. hasAgentMetadata (snd kv)) (messageTrackers ss) \<longrightarrow>
        \<not> isPrimarySessionActive cfg now st"
    using isPrimarySessionActive_agents_only by blast
  show ?thesis
    using c1 c2 c3 c4 primary_part_event [of cfg now part delta st]
      primary_idle_event [of cfg now sidOpt st]
      isPrimarySessionActive_withoutAgentStreams [of cfg now st]
      isPrimarySessionActive_iff [of cfg now st]
    by (intro conjI)
qed



lemmas fixture_eval =
  createMessageUpdatedEvent_def createPartUpdatedEvent_def noAgent_def testConfig_def
  createTracker_def DEFAULT_ROLLING_WINDOW_MS_def

text \<open>
  As stated, the claim fails within one plugin instance: session \<open>ses_A\<close> becomes
  primary with its first token; when it goes idle no session is left, \<open>cleanup()\<close>
  clears the assignment, and the first token of session \<open>ses_B\<close> makes that one
  primary.
\<close>

theorem C5_counterexample:
  "primarySessionId
     (run testConfig initialState
        [(1000, Event (createMessageUpdatedEvent 1000 ''ses_A'' ''m1'' Streaming noAgent)),
         (1010, Event (createPartUpdatedEvent ''ses_A'' ''m1'' ''hello'' ''text'' noAgent))])
     = Some ''ses_A'' \<and>
   primarySessionId
     (run testConfig initialState
        [(1000, Event (createMessageUpdatedEvent 1000 ''ses_A'' ''m1'' Streaming noAgent)),
         (1010, Event (createPartUpdatedEvent ''ses_A'' ''m1'' ''hello'' ''text'' noAgent)),
         (2000, Event (SessionIdle (Some ''ses_A''))),
         (3000, Event (createMessageUpdatedEvent 3000 ''ses_B'' ''m2'' Streaming noAgent)),
         (3010, Event (createPartUpdatedEvent ''ses_B'' ''m2'' ''hi'' ''text'' noAgent))])
     = Some ''ses_B''"
  by (simp add: plugin_eval fixture_eval)

text \<open>
  At concrete inputs, with \<open>ses_A\<close> primary: a first token of \<open>ses_B\<close> leaves
  \<open>ses_A\<close> primary; so does a run of two events of \<open>ses_B\<close> and the display timer
  of \<open>ses_A\<close>; a first token tagged with an agent id on a fresh registry assigns
  no primary; and once the plain stream of \<open>ses_A\<close> has completed and only its tagged
  stream is live, the primary session is not active. After \<open>ses_A\<close> has gone idle and
  the assignment is cleared, the first token of \<open>ses_B\<close> assigns \<open>ses_B\<close>. And
  when the plain stream of \<open>ses_A\<close> has been silent for two seconds while a tagged
  stream of the same session has just recorded tokens, the primary session is not active.
\<close>

theorem C5_primary_sticky_until_reset_witness:
  "primarySessionId
     (plugin_step testConfig
        (run testConfig initialState
           [(1000, Event (createMessageUpdatedEvent 1000 ''ses_A'' ''m1'' Streaming noAgent)),
            (1010, Event (createPartUpdatedEvent ''ses_A'' ''m1'' ''hello'' ''text'' noAgent)),
            (1020, Event (createMessageUpdatedEvent 1020 ''ses_B'' ''m2'' Streaming noAgent))])
        (1030, Event (createPartUpdatedEvent ''ses_B'' ''m2'' ''hi'' ''text'' noAgent)))
     = Some ''ses_A''
   \<and>
   primarySessionId
     (run testConfig
        (run testConfig initialState
           [(1000, Event (createMessageUpdatedEvent 1000 ''ses_A'' ''m1'' Streaming noAgent)),
            (1010, Event (createPartUpdatedEvent ''ses_A'' ''m1'' ''hello'' ''text'' noAgent))])
        [(1020, Event (createMessageUpdatedEvent 1020 ''ses_B'' ''m2'' Streaming noAgent)),
         (1030, Event (createPartUpdatedEvent ''ses_B'' ''m2'' ''hi'' ''text'' noAgent)),
         (1300, TimerFires ''ses_A'')])
     = Some ''ses_A''
   \<and>
   primarySessionId
     (handleEvent testConfig 1010
        (MessagePartUpdated (Some
           \<lparr>part_id = Some ''m1-part'', part_sessionID = Some ''ses_A'', part_messageID = ''m1'',
             part_type = ''text'', part_text = Some ''hello'', part_name = None,
             part_agent = None, part_agentId = Some ''explore-1'', part_agentType = None\<rparr>)
           (Some ''hello''))
        (run testConfig initialState
           [(1000, Event (createMessageUpdatedEvent 1000 ''ses_A'' ''m1'' Streaming noAgent))]))
     = None
   \<and>
   \<not> isPrimarySessionActive testConfig 1040
       (run testConfig initialState
          [(1000, Event (createMessageUpdatedEvent 1000 ''ses_A'' ''m1'' Streaming noAgent)),
           (1010, Event (createPartUpdatedEvent ''ses_A'' ''m1'' ''hello'' ''text'' noAgent)),
           (1020, Event (createMessageUpdatedEvent 1020 ''ses_A'' ''m2'' Streaming
                    (noAgent\<lparr>md_agentId := Some ''explore-1''\<rparr>))),
           (1030, Event (createPartUpdatedEvent ''ses_A'' ''m2'' ''hi'' ''text''
                    (noAgent\<lparr>md_agentId := Some ''explore-1''\<rparr>))),
           (1035, Event (createMessageUpdatedEvent 1035 ''ses_A'' ''m1'' Complete noAgent))])
   \<and>
   primarySessionId
     (handleEvent testConfig 2000 (SessionIdle (Some ''ses_A''))
        (run testConfig initialState
           [(1000, Event (createMessageUpdatedEvent 1000 ''ses_A'' ''m1'' Streaming noAgent)),
            (1010, Event (createPartUpdatedEvent ''ses_A'' ''m1'' ''hello'' ''text'' noAgent))]))
     = None
   \<and>
   primarySessionId
     (handleEvent testConfig 3010
        (MessagePartUpdated (Some
           \<lparr>part_id = Some ''m2-part'', part_sessionID = Some ''ses_B'', part_messageID = ''m2'',
             part_type = ''text'', part_text = Some ''hi'', part_name = None,
             part_agent = None, part_agentId = None, part_agentType = None\<rparr>)
           (Some ''hi''))
        (run testConfig initialState
           [(1000, Event (createMessageUpdatedEvent 1000 ''ses_A'' ''m1'' Streaming noAgent)),
            (1010, Event (createPartUpdatedEvent ''ses_A'' ''m1'' ''hello'' ''text'' noAgent)),
            (2000, Event (SessionIdle (Some ''ses_A''))),
            (3000, Event (createMessageUpdatedEvent 3000 ''ses_B'' ''m2'' Streaming noAgent))]))
     = Some ''ses_B''
   \<and>
   \<not> isPrimarySessionActive testConfig 3100
       (run testConfig initialState
          [(1000, Event (createMessageUpdatedEvent 1000 ''ses_A'' ''m1'' Streaming noAgent)),
           (1010, Event (createPartUpdatedEvent ''ses_A'' ''m1'' ''hello'' ''text'' noAgent)),
           (2990, Event (createMessageUpdatedEvent 2990 ''ses_A'' ''m2'' Streaming
                    (noAgent\<lparr>md_agentId := Some ''explore-1''\<rparr>))),
           (3000, Event (createPartUpdatedEvent ''ses_A'' ''m2'' ''hi'' ''text''
                    (noAgent\<lparr>md_agentId := Some ''explore-1''\<rparr>)))])"
proof -
  let ?stA = "run testConfig initialState
           [(1000, Event (createMessageUpdatedEvent 1000 ''ses_A'' ''m1'' Streaming noAgent)),
            (1010, Event (createPartUpdatedEvent ''ses_A'' ''m1'' ''hello'' ''text'' noAgent))]"
  let ?stB = "run testConfig initialState
           [(1000, Event (createMessageUpdatedEvent 1000 ''ses_A'' ''m1'' Streaming noAgent)),
            (1010, Event (createPartUpdatedEvent ''ses_A'' ''m1'' ''hello'' ''text'' noAgent)),
            (1020, Event (createMessageUpdatedEvent 1020 ''ses_B'' ''m2'' Streaming noAgent))]"
  let ?st1 = "run testConfig initialState
           [(1000, Event (createMessageUpdatedEvent 1000 ''ses_A'' ''m1'' Streaming noAgent))]"
  let ?stC = "run testConfig initialState
          [(1000, Event (createMessageUpdatedEvent 1000 ''ses_A'' ''m1'' Streaming noAgent)),
           (1010, Event (createPartUpdatedEvent ''ses_A'' ''m1'' ''hello'' ''text'' noAgent)),
           (1020, Event (createMessageUpdatedEvent 1020 ''ses_A'' ''m2'' Streaming
                    (noAgent\<lparr>md_agentId := Some ''explore-1''\<rparr>))),
           (1030, Event (createPartUpdatedEvent ''ses_A'' ''m2'' ''hi'' ''text''
                    (noAgent\<lparr>md_agentId := Some ''explore-1''\<rparr>))),
           (1035, Event (createMessageUpdatedEvent 1035 ''ses_A'' ''m1'' Complete noAgent))]"
  let ?stR = "run testConfig initialState
           [(1000, Event (createMessageUpdatedEvent 1000 ''ses_A'' ''m1'' Streaming noAgent)),
            (1010, Event (createPartUpdatedEvent ''ses_A'' ''m1'' ''hello'' ''text'' noAgent)),
            (2000, Event (SessionIdle (Some ''ses_A''))),
            (3000, Event (createMessageUpdatedEvent 3000 ''ses_B'' ''m2'' Streaming noAgent))]"
  let ?stX = "run testConfig initialState
          [(1000, Event (createMessageUpdatedEvent 1000 ''ses_A'' ''m1'' Streaming noAgent)),
           (1010, Event (createPartUpdatedEvent ''ses_A'' ''m1'' ''hello'' ''text'' noAgent)),
           (2990, Event (createMessageUpdatedEvent 2990 ''ses_A'' ''m2'' Streaming
                    (noAgent\<lparr>md_agentId := Some ''explore-1''\<rparr>))),
           (3000, Event (createPartUpdatedEvent ''ses_A'' ''m2'' ''hi'' ''text''
                    (noAgent\<lparr>md_agentId := Some ''explore-1''\<rparr>)))]"
  let ?partB = "Event (createPartUpdatedEvent ''ses_B'' ''m2'' ''hi'' ''text'' noAgent)"
  let ?agentPart = "\<lparr>part_id = Some ''m1-part'', part_sessionID = Some ''ses_A'', part_messageID = ''m1'',
             part_type = ''text'', part_text = Some ''hello'', part_name = None,
             part_agent = None, part_agentId = Some ''explore-1'', part_agentType = None\<rparr>"
  let ?plainPart = "\<lparr>part_id = Some ''m2-part'', part_sessionID = Some ''ses_B'', part_messageID = ''m2'',
             part_type = ''text'', part_text = Some ''hi'', part_name = None,
             part_agent = None, part_agentId = None, part_agentType = None\<rparr>"
  let ?steps = "[(1020, Event (createMessageUpdatedEvent 1020 ''ses_B'' ''m2'' Streaming noAgent)),
         (1030, Event (createPartUpdatedEvent ''ses_B'' ''m2'' ''hi'' ''text'' noAgent)),
         (1300, TimerFires ''ses_A'')]"
  have pA: "primarySessionId ?stA = Some ''ses_A''"
    by (simp add: plugin_eval fixture_eval)
  have pB: "primarySessionId ?stB = Some ''ses_A''"
    by (simp add: plugin_eval fixture_eval)
  have p1: "primarySessionId ?st1 = None"
    by (simp add: plugin_eval fixture_eval)
  have nB: "\<not> isSessionIdle ?partB"
    by (simp add: createPartUpdatedEvent_def)
  have nS: "list_all (\<lambda>x. \<not> isSessionIdle (snd x)) ?steps"
    by (simp add: createPartUpdatedEvent_def createMessageUpdatedEvent_def)
  have mA: "truthyStr (part_agentId ?agentPart)"
    by (simp add: truthyStr_def)
  have pC: "primarySessionId ?stC = Some ''ses_A''"
    by (simp add: plugin_eval fixture_eval)
  obtain ss where sC: "map_of (sessionTrackers ?stC) ''ses_A'' = Some ss"
    and aC: "list_all (\<lambda>kv. hasAgentMetadata (snd kv)) (messageTrackers ss)"
    by (simp add: plugin_eval fixture_eval)
  have dA: "AList.delete (idleSessionId (Some ''ses_A'')) (sessionTrackers ?stA) = []"
    by (simp add: plugin_eval fixture_eval idleSessionId_def)
  have pR: "primarySessionId ?stR = None"
    by (simp add: plugin_eval fixture_eval)
  have kR: "partCounted ?plainPart (Some ''hi'') ?stR"
    by (simp add: partCounted_def plugin_eval fixture_eval)
  have fR: "\<not> truthyNum (firstTokenAt (partStream testConfig 3010 ?plainPart
              (snd (resolveDelta ?plainPart (Some ''hi'') ?stR))))"
    by (simp add: plugin_eval fixture_eval)
  have hR: "\<not> hasAgentMetadata (partStream testConfig 3010 ?plainPart
              (snd (resolveDelta ?plainPart (Some ''hi'') ?stR)))"
    by (simp add: plugin_eval fixture_eval)
  have xX: "\<not> isPrimarySessionActive testConfig 3100 (withoutAgentStreams ?stX)"
    by (simp add: withoutAgentStreams_def plugin_eval fixture_eval)
  have c1: "primarySessionId (plugin_step testConfig ?stB (1030, ?partB)) = Some ''ses_A''"
    using C5_primary_sticky_until_reset [where st = ?stB and p = "''ses_A''" and cfg = testConfig and now = 1030
        and s = ?partB] pB nB
    by blast
  have c2: "primarySessionId (run testConfig ?stA ?steps) = Some ''ses_A''"
    using C5_primary_sticky_until_reset [where st = ?stA and p = "''ses_A''" and cfg = testConfig and steps = ?steps] pA nS
    by blast
  have c3: "primarySessionId (handleEvent testConfig 1010
        (MessagePartUpdated (Some ?agentPart) (Some ''hello'')) ?st1) = None"
    using C5_primary_sticky_until_reset [where st = ?st1 and cfg = testConfig and now = 1010 and part = ?agentPart
        and delta = "Some ''hello''", THEN conjunct2, THEN conjunct2, THEN conjunct1] mA p1
    by metis
  have c4: "\<not> isPrimarySessionActive testConfig 1040 ?stC"
    using C5_primary_sticky_until_reset [where st = ?stC and p = "''ses_A''" and cfg = testConfig and now = 1040
        and ss = ss] pC sC aC
    by blast
  have c5: "primarySessionId (handleEvent testConfig 2000 (SessionIdle (Some ''ses_A'')) ?stA)
        = None"
    using C5_primary_sticky_until_reset [where st = ?stA and cfg = testConfig and now = 2000
        and sidOpt = "Some ''ses_A''"] dA
    by presburger
  have c6: "primarySessionId (handleEvent testConfig 3010
        (MessagePartUpdated (Some ?plainPart) (Some ''hi'')) ?stR) = Some ''ses_B''"
  proof -
    have "primarySessionId (handleEvent testConfig 3010
        (MessagePartUpdated (Some ?plainPart) (Some ''hi'')) ?stR) = Some (partSessionId ?plainPart)"
      using C5_primary_sticky_until_reset [where st = ?stR and cfg = testConfig and now = 3010 and part = ?plainPart
        and delta = "Some ''hi''"] kR fR hR pR
      by presburger
    then show ?thesis by (simp add: partSessionId_def)
  qed
  have c7: "\<not> isPrimarySessionActive testConfig 3100 ?stX"
    using C5_primary_sticky_until_reset [where st = ?stX and cfg = testConfig and now = 3100] xX
    by blast
  show ?thesis using c1 c2 c3 c4 c5 c6 c7 by blast
qed

subsection \<open>Parts that are not counted\<close>

lemma resolveDelta_fields:
  "sessionTrackers (snd (resolveDelta part delta st)) = sessionTrackers st"
  "messageTokenCache (snd (resolveDelta part delta st)) = messageTokenCache st"
  "messageRoleCache (snd (resolveDelta part delta st)) = messageRoleCache st"
  "pendingDisplayTimers (snd (resolveDelta part delta st)) = pendingDisplayTimers st"
  "lastCleanupTime (snd (resolveDelta part delta st)) = lastCleanupTime st"
  "ui_calls (snd (resolveDelta part delta st)) = ui_calls st"
  by (simp_all add: resolveDelta_def Let_def)

lemma cachedRole_resolveDelta:
  "cachedRole (snd (resolveDelta part delta st)) sid mid = cachedRole st sid mid"
  by (simp add: cachedRole_def resolveDelta_fields)

lemma handleMessagePartUpdated_ignored:
  assumes "part_type part \<notin> set COUNTABLE_PART_TYPES \<or>
           cachedRole st (partSessionId part) (part_messageID part) \<noteq> Some Assistant"
  shows "handleMessagePartUpdated cfg now (Some part) delta st = st \<or>
         handleMessagePartUpdated cfg now (Some part) delta st = snd (resolveDelta part delta st)"
proof (cases "part_type part \<notin> set COUNTABLE_PART_TYPES")
  case True
  then show ?thesis by (simp add: handleMessagePartUpdated_def)
next
  case False
  with assms have r: "cachedRole st (partSessionId part) (part_messageID part) \<noteq> Some Assistant"
    by blast
  obtain d st1 where rd: "resolveDelta part delta st = (d, st1)" by (cases "resolveDelta part delta st")
  have "st1 = snd (resolveDelta part delta st)" using rd by simp
  then have "cachedRole st1 (partSessionId part) (part_messageID part) \<noteq> Some Assistant"
    using r by (simp add: cachedRole_resolveDelta)
  then show ?thesis using False rd
    by (simp add: handleMessagePartUpdated_def split: option.splits)
qed

text \<open>
  Claim C6. A \<open>message.part.updated\<close> event whose part type is not \<open>text\<close> or
  \<open>reasoning\<close>, or whose message has no cached role \<open>assistant\<close>, records no
  tokens: the registry, which holds every session aggregate and every per-stream tracker,
  is unchanged, and so is the per-message token cache. It issues no display update: no
  call is made on the display manager and no display timer is armed or cleared.
\<close>

theorem C6_uncounted_part_ignored:
  assumes "part_type part \<notin> set COUNTABLE_PART_TYPES \<or>
           cachedRole st (partSessionId part) (part_messageID part) \<noteq> Some Assistant"
  shows "sessionTrackers (handleEvent cfg now (MessagePartUpdated (Some part) delta) st) = sessionTrackers st \<and>
         messageTokenCache (handleEvent cfg now (MessagePartUpdated (Some part) delta) st) = messageTokenCache st \<and>
         ui_calls (handleEvent cfg now (MessagePartUpdated (Some part) delta) st) = ui_calls st \<and>
         pendingDisplayTimers (handleEvent cfg now (MessagePartUpdated (Some part) delta) st) = pendingDisplayTimers st"
  using handleMessagePartUpdated_ignored [OF assms, of cfg now delta]
  by (auto simp: resolveDelta_fields)

text \<open>
  At concrete inputs: a \<open>tool\<close> part of an assistant message whose role is cached,
  and a \<open>text\<close> part of a message whose role never arrived.
\<close>

theorem C6_uncounted_part_ignored_witness:
  "sessionTrackers
     (handleEvent testConfig 1010 (createPartUpdatedEvent ''ses_A'' ''m1'' ''hello'' ''tool'' noAgent)
        (run testConfig initialState
           [(1000, Event (createMessageUpdatedEvent 1000 ''ses_A'' ''m1'' Streaming noAgent))]))
     = sessionTrackers
        (run testConfig initialState
           [(1000, Event (createMessageUpdatedEvent 1000 ''ses_A'' ''m1'' Streaming noAgent))])
   \<and>
   ui_calls
     (handleEvent testConfig 1010 (createPartUpdatedEvent ''ses_A'' ''m1'' ''hello'' ''tool'' noAgent)
        (run testConfig initialState
           [(1000, Event (createMessageUpdatedEvent 1000 ''ses_A'' ''m1'' Streaming noAgent))]))
     = []
   \<and>
   sessionTrackers
     (handleEvent testConfig 1010 (createPartUpdatedEvent ''ses_A'' ''m1'' ''hello'' ''text'' noAgent)
        initialState) = []
   \<and>
   ui_calls
     (handleEvent testConfig 1010 (createPartUpdatedEvent ''ses_A'' ''m1'' ''hello'' ''text'' noAgent)
        initialState) = []"
proof -
  let ?st1 = "run testConfig initialState
           [(1000, Event (createMessageUpdatedEvent 1000 ''ses_A'' ''m1'' Streaming noAgent))]"
  let ?tool = "\<lparr>part_id = Some (''m1'' @ ''-part''), part_sessionID = Some ''ses_A'',
      part_messageID = ''m1'', part_type = ''tool'', part_text = Some ''hello'', part_name = None,
      part_agent = md_agent noAgent, part_agentId = md_agentId noAgent,
      part_agentType = md_agentType noAgent\<rparr>"
  let ?text = "\<lparr>part_id = Some (''m1'' @ ''-part''), part_sessionID = Some ''ses_A'',
      part_messageID = ''m1'', part_type = ''text'', part_text = Some ''hello'', part_name = None,
      part_agent = md_agent noAgent, part_agentId = md_agentId noAgent,
      part_agentType = md_agentType noAgent\<rparr>"
  have h1: "part_type ?tool \<notin> set COUNTABLE_PART_TYPES \<or>
      cachedRole ?st1 (partSessionId ?tool) (part_messageID ?tool) \<noteq> Some Assistant"
    by (simp add: COUNTABLE_PART_TYPES_def)
  have h2: "part_type ?text \<notin> set COUNTABLE_PART_TYPES \<or>
      cachedRole initialState (partSessionId ?text) (part_messageID ?text) \<noteq> Some Assistant"
    by (simp add: cachedRole_def initialState_def)
  have u1: "ui_calls ?st1 = []"
    by (simp add: plugin_eval fixture_eval)
  show ?thesis
    using C6_uncounted_part_ignored [OF h1, of testConfig 1010 "Some ''hello''"]
      C6_uncounted_part_ignored [OF h2, of testConfig 1010 "Some ''hello''"] u1
    by (simp add: createPartUpdatedEvent_def initialState_def)
qed


subsection \<open>The delta of a part sent as full text\<close>

lemma map_of_update_same: "map_of (AList.update k v al) k = Some v"
  by (simp add: update_conv')

lemma aggregateTotal_getOrCreateSessionState:
  "aggregateTotal (snd (getOrCreateSessionState cfg now sid st)) sid' = aggregateTotal st sid'"
  by (simp add: getOrCreateSessionState_def aggregateTotal_def Let_def update_conv'
      createTracker_def getTotalTokens_def split: option.splits)

lemma getOrCreateSessionState_lookup:
  "map_of (sessionTrackers (snd (getOrCreateSessionState cfg now sid st))) sid
     = Some (fst (getOrCreateSessionState cfg now sid st))"
  by (simp add: getOrCreateSessionState_def Let_def update_conv' split: option.splits)

lemma aggregateTotal_getOrCreateMessageTrackerState:
  "aggregateTotal (snd (getOrCreateMessageTrackerState cfg now sid mid pid md st)) sid'
     = aggregateTotal st sid'"
proof -
  obtain ss st1 where g: "getOrCreateSessionState cfg now sid st = (ss, st1)"
    by (cases "getOrCreateSessionState cfg now sid st")
  have a: "aggregateTotal st1 sid' = aggregateTotal st sid'"
    using aggregateTotal_getOrCreateSessionState [of cfg now sid st sid'] g by simp
  have l: "map_of (sessionTrackers st1) sid = Some ss"
    using getOrCreateSessionState_lookup [of cfg now sid st] g by simp
  show ?thesis
    using a l
    by (auto simp: getOrCreateMessageTrackerState_def g Let_def aggregateTotal_def update_conv')
qed

lemma cleanupStaleMessages_gated:
  "now - lastCleanupTime st < CLEANUP_INTERVAL_MS \<Longrightarrow> cleanupStaleMessages now st = st"
  by (simp add: cleanupStaleMessages_def)

lemma lastCleanupTime_getOrCreateSessionState [simp]:
  "lastCleanupTime (snd (getOrCreateSessionState cfg now sid st)) = lastCleanupTime st"
  by (simp add: getOrCreateSessionState_def Let_def split: option.splits)

lemma lastCleanupTime_getOrCreateMessageTrackerState [simp]:
  "lastCleanupTime (snd (getOrCreateMessageTrackerState cfg now sid mid pid md st)) = lastCleanupTime st"
proof -
  obtain ss st1 where g: "getOrCreateSessionState cfg now sid st = (ss, st1)"
    by (cases "getOrCreateSessionState cfg now sid st")
  then have "lastCleanupTime st1 = lastCleanupTime st"
    using lastCleanupTime_getOrCreateSessionState [of cfg now sid st] by simp
  then show ?thesis
    by (simp add: getOrCreateMessageTrackerState_def g Let_def)
qed

lemma aggregate_noteFirstToken:
  "aggregate (fst (noteFirstToken now sid ss mt st)) = aggregate ss"
  by (simp add: noteFirstToken_def Let_def)

lemma sessionTrackers_noteFirstToken:
  "sessionTrackers (snd (snd (noteFirstToken now sid ss mt st))) = sessionTrackers st"
  by (simp add: noteFirstToken_def Let_def scheduleDisplayTimer_def)

lemma aggregateTotal_countDelta:
  "aggregateTotal (snd (countDelta cfg now sid mid d attached ss mt st)) sid
     = getTotalTokens (aggregate ss) + tokenizer_count (tokenizer cfg) d"
  by (simp add: countDelta_def Let_def aggregateTotal_def update_conv' getTotalTokens_def
      totalTokens_recordTokens)

lemma sessionTrackers_showUpdate [simp]:
  "sessionTrackers (showUpdate cfg now sid ss st) = sessionTrackers st"
  by (simp add: showUpdate_def Let_def clearDisplayTimer_def ui_call_def)

lemma aggregateTotal_showUpdate [simp]:
  "aggregateTotal (showUpdate cfg now sid ss st) sid' = aggregateTotal st sid'"
  by (simp add: aggregateTotal_def)

text \<open>
  Between two sweeps of the reaper, an accepted delta adds its token count to the
  session's aggregate.
\<close>

lemma aggregateTotal_recordDelta:
  assumes "now - lastCleanupTime st < CLEANUP_INTERVAL_MS"
  shows "aggregateTotal (recordDelta cfg now part d st) (partSessionId part)
           = aggregateTotal st (partSessionId part) + tokenizer_count (tokenizer cfg) d"
proof -
  let ?sid = "partSessionId part"
  let ?st2 = "snd (getOrCreateSessionState cfg now ?sid st)"
  obtain mt st3 where g: "getOrCreateMessageTrackerState cfg now ?sid (part_messageID part) (part_id part)
      (partMetadata part) ?st2 = (mt, st3)"
    by (cases "getOrCreateMessageTrackerState cfg now ?sid (part_messageID part) (part_id part)
      (partMetadata part) ?st2")
  have a3: "aggregateTotal st3 ?sid = aggregateTotal st ?sid"
    using aggregateTotal_getOrCreateMessageTrackerState
      [of cfg now ?sid "part_messageID part" "part_id part" "partMetadata part" ?st2 ?sid] g
    by (simp add: aggregateTotal_getOrCreateSessionState)
  have "lastCleanupTime st3 = lastCleanupTime st"
    using lastCleanupTime_getOrCreateMessageTrackerState
      [of cfg now ?sid "part_messageID part" "part_id part" "partMetadata part" ?st2] g by simp
  then have c4: "cleanupStaleMessages now st3 = st3"
    using assms by (simp add: cleanupStaleMessages_gated)
  have "?sid \<in> fst ` set (sessionTrackers st3)"
    using session_present_getOrCreateMessageTrackerState
      [of ?sid cfg now "part_messageID part" "part_id part" "partMetadata part" ?st2] g by simp
  then obtain ss where ss: "map_of (sessionTrackers st3) ?sid = Some ss"
    by (metis map_of_eq_None_iff not_Some_eq)
  have t3: "aggregateTotal st3 ?sid = getTotalTokens (aggregate ss)"
    by (simp add: aggregateTotal_def ss)
  obtain s1 m1 st5 where n: "noteFirstToken now ?sid ss mt st3 = (s1, m1, st5)"
    by (cases "noteFirstToken now ?sid ss mt st3")
  have a1: "aggregate s1 = aggregate ss"
    using aggregate_noteFirstToken [of now ?sid ss mt st3] n by simp
  obtain s2 st6 where c: "countDelta cfg now ?sid (part_messageID part) d
      (map_of (messageTrackers ss) (key mt) \<noteq> None) s1 m1 st5 = (s2, st6)"
    by (cases "countDelta cfg now ?sid (part_messageID part) d
      (map_of (messageTrackers ss) (key mt) \<noteq> None) s1 m1 st5")
  have t6: "aggregateTotal st6 ?sid = getTotalTokens (aggregate s1) + tokenizer_count (tokenizer cfg) d"
    using c by (metis aggregateTotal_countDelta snd_conv)
  have "recordDelta cfg now part d st = showUpdate cfg now ?sid s2 st6"
    by (simp only: recordDelta_def Let_def g c4 ss n c option.case prod.case)
  then show ?thesis
    using t6 a1 t3 a3 by simp
qed

text \<open>
  Claim C10. For a part without an explicit delta and with non-empty full text, the delta
  is settled against the text cached under (messageID, partID, partType): when the new
  text extends the cached one, the delta is the suffix after it; when it does not, or
  nothing is cached, the delta is the entire new text; and the cache then holds the new
  full text. For a countable part of an assistant message that delta, unless it is empty,
  is the one counted: the handler goes on with it, and between two sweeps of the reaper
  the session aggregate grows by its token count.
\<close>

theorem C10_delta_from_full_text:
  assumes "\<not> truthyStr delta" and "part_text part = Some txt" and "txt \<noteq> []"
  shows "(\<forall>previousText suffix.
            cachedText st (partSessionId part) (partCacheKey part) = Some previousText \<and>
            txt = previousText @ suffix
            \<longrightarrow> fst (resolveDelta part delta st) = Some suffix)
       \<and> (\<forall>previousText.
            cachedText st (partSessionId part) (partCacheKey part) = Some previousText \<and>
            \<not> prefix previousText txt
            \<longrightarrow> fst (resolveDelta part delta st) = Some txt)
       \<and> (cachedText st (partSessionId part) (partCacheKey part) = None
            \<longrightarrow> fst (resolveDelta part delta st) = Some txt)
       \<and> cachedText (snd (resolveDelta part delta st)) (partSessionId part) (partCacheKey part) = Some txt
       \<and> (\<forall>d. part_type part \<in> set COUNTABLE_PART_TYPES \<and>
               cachedRole st (partSessionId part) (part_messageID part) = Some Assistant \<and>
               fst (resolveDelta part delta st) = Some d \<and> d \<noteq> []
            \<longrightarrow> handleEvent cfg now (MessagePartUpdated (Some part) delta) st
                  = recordDelta cfg now part d (snd (resolveDelta part delta st)) \<and>
                (now - lastCleanupTime st < CLEANUP_INTERVAL_MS
                 \<longrightarrow> aggregateTotal (handleEvent cfg now (MessagePartUpdated (Some part) delta) st)
                         (partSessionId part)
                       = aggregateTotal st (partSessionId part) + tokenizer_count (tokenizer cfg) d))"
proof -
  have a: "(\<forall>previousText suffix.
            cachedText st (partSessionId part) (partCacheKey part) = Some previousText \<and>
            txt = previousText @ suffix
            \<longrightarrow> fst (resolveDelta part delta st) = Some suffix)
       \<and> (\<forall>previousText.
            cachedText st (partSessionId part) (partCacheKey part) = Some previousText \<and>
            \<not> prefix previousText txt
            \<longrightarrow> fst (resolveDelta part delta st) = Some txt)
       \<and> (cachedText st (partSessionId part) (partCacheKey part) = None
            \<longrightarrow> fst (resolveDelta part delta st) = Some txt)
       \<and> cachedText (snd (resolveDelta part delta st)) (partSessionId part) (partCacheKey part) = Some txt"
    using assms
    by (auto simp: resolveDelta_def cachedText_def extractPartText_def Let_def update_conv'
        split: option.splits)
  have b: "handleEvent cfg now (MessagePartUpdated (Some part) delta) st
             = recordDelta cfg now part d (snd (resolveDelta part delta st)) \<and>
           (now - lastCleanupTime st < CLEANUP_INTERVAL_MS
              \<longrightarrow> aggregateTotal (handleEvent cfg now (MessagePartUpdated (Some part) delta) st)
                      (partSessionId part)
                    = aggregateTotal st (partSessionId part) + tokenizer_count (tokenizer cfg) d)"
    if h: "part_type part \<in> set COUNTABLE_PART_TYPES \<and>
           cachedRole st (partSessionId part) (part_messageID part) = Some Assistant \<and>
           fst (resolveDelta part delta st) = Some d \<and> d \<noteq> []" for d
  proof -
    obtain st1 where rd: "resolveDelta part delta st = (Some d, st1)"
      using h by (cases "resolveDelta part delta st") simp
    have st1: "st1 = snd (resolveDelta part delta st)" using rd by simp
    have r1: "cachedRole st1 (partSessionId part) (part_messageID part) = Some Assistant"
      using h st1 by (simp add: cachedRole_resolveDelta)
    have e: "handleEvent cfg now (MessagePartUpdated (Some part) delta) st
               = recordDelta cfg now part d st1"
      using h rd r1 by (simp add: handleMessagePartUpdated_def)
    have l1: "lastCleanupTime st1 = lastCleanupTime st"
      using st1 by (simp add: resolveDelta_fields)
    have t1: "aggregateTotal st1 (partSessionId part) = aggregateTotal st (partSessionId part)"
      using st1 by (simp add: aggregateTotal_def resolveDelta_fields)
    show ?thesis
      using e st1 l1 t1 aggregateTotal_recordDelta [of now st1 cfg part d] by simp
  qed
  show ?thesis using a b by blast
qed


text \<open>
  At concrete inputs, for a part of an assistant message sent three times as full text:
  \<open>hello\<close> is counted whole (two tokens); \<open>hello world\<close> extends it, and the
  six characters of the suffix are counted (two more tokens); \<open>bye\<close> does not extend
  \<open>hello\<close> and would be counted whole.
\<close>

theorem C10_delta_from_full_text_witness:
  "fst (resolveDelta
          \<lparr>part_id = Some ''p1'', part_sessionID = Some ''ses_A'', part_messageID = ''m1'',
            part_type = ''text'', part_text = Some ''hello world'', part_name = None,
            part_agent = None, part_agentId = None, part_agentType = None\<rparr>
          None
          (run testConfig initialState
             [(1000, Event (createMessageUpdatedEvent 1000 ''ses_A'' ''m1'' Streaming noAgent)),
              (1010, Event (MessagePartUpdated (Some
                 \<lparr>part_id = Some ''p1'', part_sessionID = Some ''ses_A'', part_messageID = ''m1'',
                   part_type = ''text'', part_text = Some ''hello'', part_name = None,
                   part_agent = None, part_agentId = None, part_agentType = None\<rparr>) None))]))
     = Some '' world''
   \<and>
   fst (resolveDelta
          \<lparr>part_id = Some ''p1'', part_sessionID = Some ''ses_A'', part_messageID = ''m1'',
            part_type = ''text'', part_text = Some ''bye'', part_name = None,
            part_agent = None, part_agentId = None, part_agentType = None\<rparr>
          None
          (run testConfig initialState
             [(1000, Event (createMessageUpdatedEvent 1000 ''ses_A'' ''m1'' Streaming noAgent)),
              (1010, Event (MessagePartUpdated (Some
                 \<lparr>part_id = Some ''p1'', part_sessionID = Some ''ses_A'', part_messageID = ''m1'',
                   part_type = ''text'', part_text = Some ''hello'', part_name = None,
                   part_agent = None, part_agentId = None, part_agentType = None\<rparr>) None))]))
     = Some ''bye''
   \<and>
   cachedText
     (snd (resolveDelta
          \<lparr>part_id = Some ''p1'', part_sessionID = Some ''ses_A'', part_messageID = ''m1'',
            part_type = ''text'', part_text = Some ''hello world'', part_name = None,
            part_agent = None, part_agentId = None, part_agentType = None\<rparr>
          None
          (run testConfig initialState
             [(1000, Event (createMessageUpdatedEvent 1000 ''ses_A'' ''m1'' Streaming noAgent)),
              (1010, Event (MessagePartUpdated (Some
                 \<lparr>part_id = Some ''p1'', part_sessionID = Some ''ses_A'', part_messageID = ''m1'',
                   part_type = ''text'', part_text = Some ''hello'', part_name = None,
                   part_agent = None, part_agentId = None, part_agentType = None\<rparr>) None))])))
     ''ses_A'' ''m1:p1:text''
     = Some ''hello world''
   \<and>
   aggregateTotal
     (run testConfig initialState
        [(1000, Event (createMessageUpdatedEvent 1000 ''ses_A'' ''m1'' Streaming noAgent)),
         (1010, Event (MessagePartUpdated (Some
            \<lparr>part_id = Some ''p1'', part_sessionID = Some ''ses_A'', part_messageID = ''m1'',
              part_type = ''text'', part_text = Some ''hello'', part_name = None,
              part_agent = None, part_agentId = None, part_agentType = None\<rparr>) None))])
     ''ses_A'' = 2
   \<and>
   aggregateTotal
     (handleEvent testConfig 1020
        (MessagePartUpdated (Some
            \<lparr>part_id = Some ''p1'', part_sessionID = Some ''ses_A'', part_messageID = ''m1'',
              part_type = ''text'', part_text = Some ''hello world'', part_name = None,
              part_agent = None, part_agentId = None, part_agentType = None\<rparr>) None)
        (run testConfig initialState
           [(1000, Event (createMessageUpdatedEvent 1000 ''ses_A'' ''m1'' Streaming noAgent)),
            (1010, Event (MessagePartUpdated (Some
               \<lparr>part_id = Some ''p1'', part_sessionID = Some ''ses_A'', part_messageID = ''m1'',
                 part_type = ''text'', part_text = Some ''hello'', part_name = None,
                 part_agent = None, part_agentId = None, part_agentType = None\<rparr>) None))]))
     ''ses_A'' = 4"
proof -
  let ?st = "run testConfig initialState
             [(1000, Event (createMessageUpdatedEvent 1000 ''ses_A'' ''m1'' Streaming noAgent)),
              (1010, Event (MessagePartUpdated (Some
                 \<lparr>part_id = Some ''p1'', part_sessionID = Some ''ses_A'', part_messageID = ''m1'',
                   part_type = ''text'', part_text = Some ''hello'', part_name = None,
                   part_agent = None, part_agentId = None, part_agentType = None\<rparr>) None))]"
  let ?world = "\<lparr>part_id = Some ''p1'', part_sessionID = Some ''ses_A'', part_messageID = ''m1'',
            part_type = ''text'', part_text = Some ''hello world'', part_name = None,
            part_agent = None, part_agentId = None, part_agentType = None\<rparr>"
  let ?bye = "\<lparr>part_id = Some ''p1'', part_sessionID = Some ''ses_A'', part_messageID = ''m1'',
            part_type = ''text'', part_text = Some ''bye'', part_name = None,
            part_agent = None, part_agentId = None, part_agentType = None\<rparr>"
  have nd: "\<not> truthyStr None" by (simp add: truthyStr_def)
  have tw: "part_text ?world = Some ''hello world''" and tb: "part_text ?bye = Some ''bye''" by simp_all
  have sid: "partSessionId ?world = ''ses_A''" "partSessionId ?bye = ''ses_A''"
    by (simp_all add: partSessionId_def)
  have ck: "partCacheKey ?world = ''m1:p1:text''" "partCacheKey ?bye = ''m1:p1:text''"
    by (simp_all add: partCacheKey_def template_def)
  have cached: "cachedText ?st ''ses_A'' ''m1:p1:text'' = Some ''hello''"
    by (simp add: plugin_eval fixture_eval)
  have role: "cachedRole ?st ''ses_A'' ''m1'' = Some Assistant"
    by (simp add: plugin_eval fixture_eval)
  have gate: "1020 - lastCleanupTime ?st < CLEANUP_INTERVAL_MS"
    by (simp add: plugin_eval fixture_eval)
  have total: "aggregateTotal ?st ''ses_A'' = 2"
    by (simp add: plugin_eval fixture_eval aggregateTotal_def getTotalTokens_def
        totalTokens_recordTokens)
  have cnt: "tokenizer_count (tokenizer testConfig) '' world'' = 2"
    by (simp add: testConfig_def countByChars_def ceilDiv_def)
  have nw: "''hello world'' \<noteq> []" and nb: "''bye'' \<noteq> []" by simp_all
  note w = C10_delta_from_full_text [OF nd tw nw, of ?st testConfig 1020]
  note b = C10_delta_from_full_text [OF nd tb nb, of ?st testConfig 1020]
  have d1: "fst (resolveDelta ?world None ?st) = Some '' world''"
    using w [THEN conjunct1, rule_format, of "''hello''" "'' world''"] cached
    by (simp add: sid ck)
  have d2: "fst (resolveDelta ?bye None ?st) = Some ''bye''"
    using b [THEN conjunct2, THEN conjunct1, rule_format, of "''hello''"] cached
    by (simp add: sid ck)
  have c1: "cachedText (snd (resolveDelta ?world None ?st)) ''ses_A'' ''m1:p1:text'' = Some ''hello world''"
    using w [THEN conjunct2, THEN conjunct2, THEN conjunct2, THEN conjunct1]
    by (simp add: sid ck)
  have a1: "aggregateTotal (handleEvent testConfig 1020 (MessagePartUpdated (Some ?world) None) ?st)
      ''ses_A'' = 4"
    using w [THEN conjunct2, THEN conjunct2, THEN conjunct2, THEN conjunct2, rule_format,
        of "'' world''", THEN conjunct2, rule_format] d1 role gate total cnt
    by (simp add: sid COUNTABLE_PART_TYPES_def)
  show ?thesis using d1 d2 c1 total a1 by blast
qed


end
